theory Spec2Isabelle
  imports Main "HOL-Library.Word"
begin

unbundle bit_operations_syntax

section \<open>Hard links and symbolic links of the FUSE front end (package filesys)\<close>

text \<open>
  The three operations of the source file are \<open>Dir.Link\<close>, \<open>Dir.Symlink\<close> and
  \<open>File.Readlink\<close>. They are modelled as functions on an explicit world: the Go heap of
  attribute objects, the local metadata cache, and the trace of interactions with the
  filer and the cache. A Go panic is the value \<open>Panic\<close>; a Go result pair
  \<open>(node, error)\<close> is a pair of options (\<open>None\<close> is \<open>nil\<close>).
\<close>

subsection \<open>Data\<close>

type_synonym byte = "8 word"
type_synonym uint32 = "32 word"
type_synonym int32 = "32 word"
type_synonym int64 = "64 word"
type_synonym addr = nat

text \<open>\<open>fuse.EPERM\<close>, \<open>fuse.EIO\<close>, \<open>fuse.Errno(syscall.EINVAL)\<close>, and any other error
  value a collaborator may hand back.\<close>

datatype error = EPERM | EIO | EINVAL | Err string

datatype 'a outcome = Panic | Return 'a

definition HARD_LINK_MARKER :: byte where
  "HARD_LINK_MARKER = 1"

text \<open>Go's \<open>os.ModeSymlink\<close> is \<open>1 << 27\<close> of the 32-bit \<open>os.FileMode\<close>.\<close>

definition ModeSymlink :: uint32 where
  "ModeSymlink = push_bit 27 1"

text \<open>\<open>filer_pb.FuseAttributes\<close>: the fields the source reads or writes.\<close>

record FuseAttributes =
  Mtime :: int64
  Crtime :: int64
  FileMode :: uint32
  Uid :: uint32
  Gid :: uint32
  SymlinkTarget :: string

text \<open>\<open>filer_pb.FileChunk\<close> is opaque to this code: a reference to a content block.\<close>

datatype FileChunk = FileChunk string

text \<open>
  \<open>filer_pb.Entry\<close>. In Go the field \<open>Attributes\<close> is a pointer \<open>*FuseAttributes\<close>, and
  \<open>Link\<close> copies that pointer into the new entry, so both entries share one attribute
  object. The in-memory entry is \<open>addr Entry\<close> (\<open>None\<close> is the nil pointer); the same
  entry with the attribute object read out of the heap, as it is serialised for the filer
  or converted for the cache, is \<open>FuseAttributes Entry\<close>.
\<close>

record 'a Entry =
  Name :: string
  IsDirectory :: bool
  Attributes :: "'a option"
  Chunks :: "FileChunk list"
  Extended :: "string \<rightharpoonup> byte list"
  HardLinkId :: "byte list"
  HardLinkCounter :: int32

text \<open>\<open>filer_pb.UpdateEntryRequest\<close> and \<open>filer_pb.CreateEntryRequest\<close> have the same three
  fields; one record models both, and the trace says which call carried it.\<close>

record 'a EntryRequest =
  Directory :: string
  Entry :: "'a Entry"
  Signatures :: "int32 list"

text \<open>The value \<open>filer.FromPbEntry\<close> hands to the cache: the directory and the entry,
  copied by value.\<close>

type_synonym filer_Entry = "string \<times> FuseAttributes Entry"

datatype event =
    LoadEntry string string
  | RemoteUpdateEntry "FuseAttributes EntryRequest" bool
  | CacheUpdateEntry filer_Entry
  | RemoteCreateEntry "FuseAttributes EntryRequest" bool
  | CacheInsertEntry filer_Entry

text \<open>
  The mutable world. \<open>heap\<close> holds the attribute objects, \<open>next_addr\<close> is the next
  address \<open>&FuseAttributes{...}\<close> allocates, \<open>metaCache\<close> is the local metadata cache keyed
  by directory and name, and \<open>trace\<close> lists, oldest first, every lazy load, every call to
  the filer with the request as serialised and whether it succeeded, and every cache write.
\<close>

record world =
  heap :: "addr \<Rightarrow> FuseAttributes"
  next_addr :: addr
  metaCache :: "string \<times> string \<rightharpoonup> FuseAttributes Entry"
  trace :: "event list"

text \<open>
  \<open>WFS\<close>: the options the source reads (\<open>option.ReadOnly\<close>, \<open>option.Umask\<close>,
  \<open>signature\<close>) and what lies outside this file, taken as parameters: the two directions
  of the owner/group identifier mapper, the entropy \<open>util.RandomBytes\<close> draws from, the
  readings of \<open>time.Now().Unix()\<close> in call order, whether a filer client can be acquired,
  the filer's answer to each request (\<open>None\<close> is success), and what a lazy load finds.
\<close>

record WFS =
  ReadOnly :: bool
  Umask :: uint32
  signature :: int32
  LocalToFiler :: "uint32 \<times> uint32 \<Rightarrow> uint32 \<times> uint32"
  FilerToLocal :: "uint32 \<times> uint32 \<Rightarrow> uint32 \<times> uint32"
  entropy :: "nat \<Rightarrow> byte"
  Now :: "nat \<Rightarrow> int64"
  filer_conn :: "error option"
  filer_UpdateEntry :: "FuseAttributes EntryRequest \<Rightarrow> error option"
  filer_CreateEntry :: "FuseAttributes EntryRequest \<Rightarrow> error option"
  loadEntry :: "string \<times> string \<Rightarrow> error + FuseAttributes Entry option"

text \<open>A directory node is used only through \<open>dir.FullPath()\<close>; a file node has its name,
  its directory and its entry pointer.\<close>

record Dir =
  FullPath :: string

record File =
  fName :: string
  fdir :: Dir
  entry :: "addr Entry option"

datatype Node = FileNode File | DirNode Dir

text \<open>\<open>fuse.LinkRequest\<close> and \<open>fuse.SymlinkRequest\<close>.\<close>

record LinkRequest =
  lr_NewName :: string

record SymlinkRequest =
  sr_NewName :: string
  sr_Target :: string
  sr_Uid :: uint32
  sr_Gid :: uint32

subsection \<open>Collaborators outside the file\<close>

text \<open>Modelled from the spec: \<open>util.RandomBytes\<close> is missing; it returns the requested
  number of random bytes.\<close>

definition RandomBytes :: "WFS \<Rightarrow> nat \<Rightarrow> byte list" where
  "RandomBytes wfs n = map (entropy wfs) [0..<n]"

definition alloc :: "FuseAttributes \<Rightarrow> world \<Rightarrow> addr \<times> world" where
  "alloc a w =
     (next_addr w, w\<lparr>heap := (heap w)(next_addr w := a), next_addr := Suc (next_addr w)\<rparr>)"

text \<open>Reading an in-memory entry by value: the attribute pointer is dereferenced.\<close>

definition deref :: "world \<Rightarrow> addr Entry \<Rightarrow> FuseAttributes Entry" where
  "deref w e =
     \<lparr>Name = Name e, IsDirectory = IsDirectory e,
      Attributes = map_option (heap w) (Attributes e),
      Chunks = Chunks e, Extended = Extended e,
      HardLinkId = HardLinkId e, HardLinkCounter = HardLinkCounter e\<rparr>"

definition serialize :: "world \<Rightarrow> addr EntryRequest \<Rightarrow> FuseAttributes EntryRequest" where
  "serialize w r =
     \<lparr>Directory = Directory r, Entry = deref w (Entry r), Signatures = Signatures r\<rparr>"

text \<open>The reverse: an entry that arrives by value gets a fresh attribute object.\<close>

definition materialize :: "FuseAttributes Entry \<Rightarrow> world \<Rightarrow> addr Entry \<times> world" where
  "materialize e w =
     (case Attributes e of
        None \<Rightarrow>
          (\<lparr>Name = Name e, IsDirectory = IsDirectory e, Attributes = None,
            Chunks = Chunks e, Extended = Extended e,
            HardLinkId = HardLinkId e, HardLinkCounter = HardLinkCounter e\<rparr>, w)
      | Some a \<Rightarrow>
          (let (p, w1) = alloc a w
           in (\<lparr>Name = Name e, IsDirectory = IsDirectory e, Attributes = Some p,
                Chunks = Chunks e, Extended = Extended e,
                HardLinkId = HardLinkId e, HardLinkCounter = HardLinkCounter e\<rparr>, w1)))"

text \<open>
  Modelled from the spec: \<open>File.maybeLoadEntry\<close> is missing. The spec describes a lazy
  load "from cache/remote if not already resident": a resident entry is returned as it is,
  with no interaction; otherwise the load is one interaction, it may fail with an error,
  may find nothing (a nil entry without error), or makes the loaded entry resident.
  The result is Go's pair \<open>(entry, err)\<close>, then the file node and the world after the call.
\<close>

definition maybeLoadEntry ::
  "WFS \<Rightarrow> File \<Rightarrow> world \<Rightarrow> (error + addr Entry option) \<times> File \<times> world" where
  "maybeLoadEntry wfs file w =
     (case entry file of
        Some e \<Rightarrow> (Inr (Some e), file, w)
      | None \<Rightarrow>
          (let w1 = w\<lparr>trace := trace w @ [LoadEntry (FullPath (fdir file)) (fName file)]\<rparr>
           in case loadEntry wfs (FullPath (fdir file), fName file) of
                Inl err \<Rightarrow> (Inl err, file, w1)
              | Inr None \<Rightarrow> (Inr None, file, w1)
              | Inr (Some se) \<Rightarrow>
                  (let (e, w2) = materialize se w1
                   in (Inr (Some e), file\<lparr>entry := Some e\<rparr>, w2))))"

text \<open>
  Modelled from the spec: \<open>wfs.mapPbIdFromLocalToFiler\<close> and
  \<open>wfs.mapPbIdFromFilerToLocal\<close> are missing. They rewrite the owner and group
  identifiers of the entry's attribute object in place, outward and inward, and nothing
  else; an entry without attributes has no identifiers to rewrite.
\<close>

definition mapPbIdFromLocalToFiler :: "WFS \<Rightarrow> addr Entry \<Rightarrow> world \<Rightarrow> world" where
  "mapPbIdFromLocalToFiler wfs e w =
     (case Attributes e of
        None \<Rightarrow> w
      | Some p \<Rightarrow>
          (let a = heap w p; (u, g) = LocalToFiler wfs (Uid a, Gid a)
           in w\<lparr>heap := (heap w)(p := a\<lparr>Uid := u, Gid := g\<rparr>)\<rparr>))"

definition mapPbIdFromFilerToLocal :: "WFS \<Rightarrow> addr Entry \<Rightarrow> world \<Rightarrow> world" where
  "mapPbIdFromFilerToLocal wfs e w =
     (case Attributes e of
        None \<Rightarrow> w
      | Some p \<Rightarrow>
          (let a = heap w p; (u, g) = FilerToLocal wfs (Uid a, Gid a)
           in w\<lparr>heap := (heap w)(p := a\<lparr>Uid := u, Gid := g\<rparr>)\<rparr>))"

text \<open>
  Modelled from the spec: \<open>wfs.WithFilerClient\<close> is missing; it is a scoped acquisition
  of a filer client that runs the callback with it. When no client can be acquired the
  callback does not run and the error is returned.
\<close>

definition WithFilerClient ::
  "WFS \<Rightarrow> (world \<Rightarrow> error option \<times> world) \<Rightarrow> world \<Rightarrow> error option \<times> world" where
  "WithFilerClient wfs fn w =
     (case filer_conn wfs of Some err \<Rightarrow> (Some err, w) | None \<Rightarrow> fn w)"

text \<open>
  Modelled from the spec: \<open>filer_pb.UpdateEntry\<close> and \<open>filer_pb.CreateEntry\<close> are
  missing; each is a single round trip that sends the request as it is at that moment and
  returns the filer's answer.
\<close>

definition filer_pb_UpdateEntry ::
  "WFS \<Rightarrow> addr EntryRequest \<Rightarrow> world \<Rightarrow> error option \<times> world" where
  "filer_pb_UpdateEntry wfs r w =
     (let sent = serialize w r; answer = filer_UpdateEntry wfs sent
      in (answer, w\<lparr>trace := trace w @ [RemoteUpdateEntry sent (answer = None)]\<rparr>))"

definition filer_pb_CreateEntry ::
  "WFS \<Rightarrow> addr EntryRequest \<Rightarrow> world \<Rightarrow> error option \<times> world" where
  "filer_pb_CreateEntry wfs r w =
     (let sent = serialize w r; answer = filer_CreateEntry wfs sent
      in (answer, w\<lparr>trace := trace w @ [RemoteCreateEntry sent (answer = None)]\<rparr>))"

text \<open>
  Modelled from the spec: \<open>filer.FromPbEntry\<close> and the cache's \<open>UpdateEntry\<close> and
  \<open>InsertEntry\<close> are missing; each cache call is a non-failing write into the local
  mirror, keyed by the path (directory and name).
\<close>

definition FromPbEntry :: "world \<Rightarrow> string \<Rightarrow> addr Entry \<Rightarrow> filer_Entry" where
  "FromPbEntry w d e = (d, deref w e)"

definition metaCache_UpdateEntry :: "filer_Entry \<Rightarrow> world \<Rightarrow> world" where
  "metaCache_UpdateEntry fe w =
     w\<lparr>metaCache := (metaCache w)((fst fe, Name (snd fe)) \<mapsto> snd fe),
       trace := trace w @ [CacheUpdateEntry fe]\<rparr>"

definition metaCache_InsertEntry :: "filer_Entry \<Rightarrow> world \<Rightarrow> world" where
  "metaCache_InsertEntry fe w =
     w\<lparr>metaCache := (metaCache w)((fst fe, Name (snd fe)) \<mapsto> snd fe),
       trace := trace w @ [CacheInsertEntry fe]\<rparr>"

text \<open>Modelled from the spec: \<open>dir.newFile\<close> is missing; it constructs a file node of
  the directory that wraps the given entry.\<close>

definition newFile :: "Dir \<Rightarrow> string \<Rightarrow> addr Entry \<Rightarrow> File" where
  "newFile dir name e = \<lparr>fName = name, fdir = dir, entry = Some e\<rparr>"

subsection \<open>Dir.Link\<close>

text \<open>Lines 48 to 52: the old entry is switched to hard link mode when it has no
  identity yet, and its counter is incremented.\<close>

definition stamp :: "WFS \<Rightarrow> addr Entry \<Rightarrow> addr Entry" where
  "stamp wfs oldEntry =
     (let e1 = (if length (HardLinkId oldEntry) = 0
                then oldEntry\<lparr>HardLinkId := RandomBytes wfs 16 @ [HARD_LINK_MARKER],
                               HardLinkCounter := 1\<rparr>
                else oldEntry)
      in e1\<lparr>HardLinkCounter := HardLinkCounter e1 + 1\<rparr>)"

text \<open>The body of the callback of \<open>Link\<close>, lines 80 to 92.\<close>

definition Link_body ::
  "WFS \<Rightarrow> addr EntryRequest \<Rightarrow> addr EntryRequest \<Rightarrow> world \<Rightarrow> error option \<times> world" where
  "Link_body wfs updateOldEntryRequest request w =
     (case filer_pb_UpdateEntry wfs updateOldEntryRequest w of
        (Some err, w1) \<Rightarrow> (Some EIO, w1)
      | (None, w1) \<Rightarrow>
          (let w2 = metaCache_UpdateEntry
                      (FromPbEntry w1 (Directory updateOldEntryRequest)
                         (Entry updateOldEntryRequest)) w1
           in case filer_pb_CreateEntry wfs request w2 of
                (Some err, w3) \<Rightarrow> (Some EIO, w3)
              | (None, w3) \<Rightarrow>
                  (None, metaCache_InsertEntry
                           (FromPbEntry w3 (Directory request) (Entry request)) w3)))"

text \<open>The callback: identifiers outward, the body, and the deferred inward mapping,
  which runs whatever the body returns.\<close>

definition Link_callback ::
  "WFS \<Rightarrow> addr EntryRequest \<Rightarrow> addr EntryRequest \<Rightarrow> world \<Rightarrow> error option \<times> world" where
  "Link_callback wfs updateOldEntryRequest request w =
     (let w1 = mapPbIdFromLocalToFiler wfs (Entry request) w;
          (err, w2) = Link_body wfs updateOldEntryRequest request w1
      in (err, mapPbIdFromFilerToLocal wfs (Entry request) w2))"

definition Link_requests ::
  "WFS \<Rightarrow> Dir \<Rightarrow> LinkRequest \<Rightarrow> File \<Rightarrow> addr Entry \<Rightarrow> addr EntryRequest \<times> addr EntryRequest" where
  "Link_requests wfs dir req oldFile oldEntry =
     (\<lparr>Directory = FullPath (fdir oldFile), Entry = oldEntry,
       Signatures = [signature wfs]\<rparr>,
      \<lparr>Directory = FullPath dir,
       Entry = \<lparr>Name = lr_NewName req, IsDirectory = False,
                Attributes = Attributes oldEntry, Chunks = Chunks oldEntry,
                Extended = Extended oldEntry, HardLinkId = HardLinkId oldEntry,
                HardLinkCounter = HardLinkCounter oldEntry\<rparr>,
       Signatures = [signature wfs]\<rparr>)"

text \<open>
  \<open>Link\<close> returns Go's result, the old node as the call leaves it (the old entry is
  changed in place through its pointer), and the world. A node that is not a file makes
  \<open>oldFile\<close> nil; the next statement evaluates \<open>oldFile.dir\<close> and panics.
\<close>

definition Link ::
  "WFS \<Rightarrow> Dir \<Rightarrow> LinkRequest \<Rightarrow> Node \<Rightarrow> world
     \<Rightarrow> (File option \<times> error option) outcome \<times> Node \<times> world" where
  "Link wfs dir req old w =
     (if ReadOnly wfs then (Return (None, Some EPERM), old, w)
      else case old of
        DirNode d \<Rightarrow> (Panic, old, w)
      | FileNode oldFile0 \<Rightarrow>
          (case maybeLoadEntry wfs oldFile0 w of
             (Inl err, oldFile, w1) \<Rightarrow> (Return (None, Some err), FileNode oldFile, w1)
           | (Inr loaded, oldFile, w1) \<Rightarrow>
               (case entry oldFile of
                  None \<Rightarrow> (Return (None, Some EIO), FileNode oldFile, w1)
                | Some oldEntry0 \<Rightarrow>
                    (let oldEntry = stamp wfs oldEntry0;
                         oldFile' = oldFile\<lparr>entry := Some oldEntry\<rparr>;
                         (updateOldEntryRequest, request) =
                            Link_requests wfs dir req oldFile oldEntry;
                         (err, w2) = WithFilerClient wfs
                            (Link_callback wfs updateOldEntryRequest request) w1
                     in case err of
                          Some e \<Rightarrow> (Return (None, Some EIO), FileNode oldFile', w2)
                        | None \<Rightarrow>
                            (case maybeLoadEntry wfs
                                    (newFile dir (lr_NewName req) (Entry request)) w2 of
                               (Inl err', nf, w3) \<Rightarrow>
                                 (Return (None, Some err'), FileNode oldFile', w3)
                             | (Inr loaded', nf, w3) \<Rightarrow>
                                 (Return (Some nf, None), FileNode oldFile', w3))))))"

subsection \<open>Dir.Symlink\<close>

definition Symlink_callback ::
  "WFS \<Rightarrow> addr EntryRequest \<Rightarrow> world \<Rightarrow> error option \<times> world" where
  "Symlink_callback wfs request w =
     (let w1 = mapPbIdFromLocalToFiler wfs (Entry request) w;
          (err, w2) =
            (case filer_pb_CreateEntry wfs request w1 of
               (Some e, w') \<Rightarrow> (Some EIO, w')
             | (None, w') \<Rightarrow>
                 (None, metaCache_InsertEntry
                          (FromPbEntry w' (Directory request) (Entry request)) w'))
      in (err, mapPbIdFromFilerToLocal wfs (Entry request) w2))"

definition Symlink_attributes :: "WFS \<Rightarrow> SymlinkRequest \<Rightarrow> FuseAttributes" where
  "Symlink_attributes wfs req =
     \<lparr>Mtime = Now wfs 0, Crtime = Now wfs 1,
      FileMode = (511 OR ModeSymlink) AND NOT (Umask wfs),
      Uid = sr_Uid req, Gid = sr_Gid req, SymlinkTarget = sr_Target req\<rparr>"

text \<open>The request of lines 118 to 133; \<open>p\<close> is the address of the attribute object
  just allocated. The fields the source does not set have Go's zero values.\<close>

definition Symlink_request :: "WFS \<Rightarrow> Dir \<Rightarrow> SymlinkRequest \<Rightarrow> addr \<Rightarrow> addr EntryRequest" where
  "Symlink_request wfs dir req p =
     \<lparr>Directory = FullPath dir,
      Entry = \<lparr>Name = sr_NewName req, IsDirectory = False,
               Attributes = Some p, Chunks = [],
               Extended = Map.empty, HardLinkId = [],
               HardLinkCounter = 0\<rparr>,
      Signatures = [signature wfs]\<rparr>"

definition Symlink ::
  "WFS \<Rightarrow> Dir \<Rightarrow> SymlinkRequest \<Rightarrow> world
     \<Rightarrow> (File option \<times> error option) outcome \<times> world" where
  "Symlink wfs dir req w =
     (if ReadOnly wfs then (Return (None, Some EPERM), w)
      else
        (let (p, w1) = alloc (Symlink_attributes wfs req) w;
             request = Symlink_request wfs dir req p;
             (err, w2) = WithFilerClient wfs (Symlink_callback wfs request) w1;
             symlink = newFile dir (sr_NewName req) (Entry request)
         in (Return (Some symlink, err), w2)))"

subsection \<open>File.Readlink\<close>

text \<open>A nil entry or a nil attribute pointer after a successful load is dereferenced
  by the mode test: a panic.\<close>

definition Readlink ::
  "WFS \<Rightarrow> File \<Rightarrow> world \<Rightarrow> (string \<times> error option) outcome \<times> File \<times> world" where
  "Readlink wfs file0 w =
     (case maybeLoadEntry wfs file0 w of
        (Inl err, file, w1) \<Rightarrow> (Return ('''', Some err), file, w1)
      | (Inr None, file, w1) \<Rightarrow> (Panic, file, w1)
      | (Inr (Some e), file, w1) \<Rightarrow>
          (case Attributes e of
             None \<Rightarrow> (Panic, file, w1)
           | Some p \<Rightarrow>
               if FileMode (heap w1 p) AND ModeSymlink = 0
               then (Return ('''', Some EINVAL), file, w1)
               else (Return (SymlinkTarget (heap w1 p), None), file, w1)))"

subsection \<open>Successive links and the order of interactions\<close>

text \<open>Successive \<open>Link\<close> calls on the same old node, one per request, each call
  starting from the node and the world the previous one left.\<close>

fun Link_all ::
  "WFS \<Rightarrow> Dir \<Rightarrow> LinkRequest list \<Rightarrow> Node \<Rightarrow> world
     \<Rightarrow> (File option \<times> error option) outcome list \<times> Node \<times> world" where
  "Link_all wfs dir [] old w = ([], old, w)"
| "Link_all wfs dir (req # reqs) old w =
     (case Link wfs dir req old w of
        (r, old1, w1) \<Rightarrow>
          (case Link_all wfs dir reqs old1 w1 of
             (rs, old2, w2) \<Rightarrow> (r # rs, old2, w2)))"

fun succeeded :: "(File option \<times> error option) outcome \<Rightarrow> bool" where
  "succeeded (Return (Some nf, None)) = True"
| "succeeded r = False"

text \<open>\<open>justifies r c\<close>: \<open>r\<close> is a filer call that returned success and \<open>c\<close> is the
  cache write of the entry that call carried.\<close>

fun justifies :: "event \<Rightarrow> event \<Rightarrow> bool" where
  "justifies (RemoteUpdateEntry q ok) (CacheUpdateEntry fe) =
     (ok \<and> fe = (Directory q, Entry q))"
| "justifies (RemoteCreateEntry q ok) (CacheInsertEntry fe) =
     (ok \<and> fe = (Directory q, Entry q))"
| "justifies r c = False"

fun is_cache_write :: "event \<Rightarrow> bool" where
  "is_cache_write (CacheUpdateEntry fe) = True"
| "is_cache_write (CacheInsertEntry fe) = True"
| "is_cache_write ev = False"

text \<open>Every cache write of the trace comes after a filer call, within the events seen
  so far, that justifies it.\<close>

fun cache_after_remote :: "event list \<Rightarrow> event list \<Rightarrow> bool" where
  "cache_after_remote seen [] = True"
| "cache_after_remote seen (ev # evs) =
     ((is_cache_write ev \<longrightarrow> list_ex (\<lambda>r. justifies r ev) seen) \<and>
      cache_after_remote (seen @ [ev]) evs)"

text \<open>\<open>refuses r c\<close>: \<open>r\<close> is a filer call that failed and \<open>c\<close> is a cache write of
  the same kind for the same path.\<close>

fun refuses :: "event \<Rightarrow> event \<Rightarrow> bool" where
  "refuses (RemoteUpdateEntry q ok) (CacheUpdateEntry fe) =
     (\<not> ok \<and> fst fe = Directory q \<and> Name (snd fe) = Name (Entry q))"
| "refuses (RemoteCreateEntry q ok) (CacheInsertEntry fe) =
     (\<not> ok \<and> fst fe = Directory q \<and> Name (snd fe) = Name (Entry q))"
| "refuses r c = False"

definition no_write_after_failure :: "event list \<Rightarrow> bool" where
  "no_write_after_failure evs = (\<not> list_ex (\<lambda>r. list_ex (refuses r) evs) evs)"

subsection \<open>A concrete setting\<close>

text \<open>
  The scenario of the spec: a file \<open>/d/a.txt\<close> without hard link identity, owned by
  1000:1000, a mapper that shifts identifiers by 1000 on the way out and back on the way
  in, and a filer that accepts every request.
\<close>

definition ex_attrs :: FuseAttributes where
  "ex_attrs = \<lparr>Mtime = 100, Crtime = 90, FileMode = 420, Uid = 1000, Gid = 1000,
               SymlinkTarget = ''''\<rparr>"

definition ex_entry :: "addr Entry" where
  "ex_entry = \<lparr>Name = ''a.txt'', IsDirectory = False, Attributes = Some 0,
               Chunks = [FileChunk ''3,01637037d6''], Extended = Map.empty,
               HardLinkId = [], HardLinkCounter = 0\<rparr>"

definition ex_world :: world where
  "ex_world = \<lparr>heap = (\<lambda>p. ex_attrs), next_addr = 1, metaCache = Map.empty, trace = []\<rparr>"

text \<open>The same world with the attribute object of a symbolic link: mode
  \<open>0755 | os.ModeSymlink\<close>.\<close>

definition ex_symlink_world :: world where
  "ex_symlink_world =
     \<lparr>heap = (\<lambda>p. ex_attrs\<lparr>FileMode := 134218221, SymlinkTarget := ''/target/path''\<rparr>),
      next_addr = 1, metaCache = Map.empty, trace = []\<rparr>"

text \<open>A world whose attribute object is owned by 0:0.\<close>

definition ex_zero_world :: world where
  "ex_zero_world =
     \<lparr>heap = (\<lambda>p. ex_attrs\<lparr>Uid := 0, Gid := 0\<rparr>),
      next_addr = 1, metaCache = Map.empty, trace = []\<rparr>"

definition ex_wfs :: WFS where
  "ex_wfs = \<lparr>ReadOnly = False, Umask = 18, signature = 7,
             LocalToFiler = (\<lambda>(u, g). (u + 1000, g + 1000)),
             FilerToLocal = (\<lambda>(u, g). (u - 1000, g - 1000)),
             entropy = (\<lambda>i. of_nat i), Now = (\<lambda>i. 1700000000),
             filer_conn = None, filer_UpdateEntry = (\<lambda>r. None),
             filer_CreateEntry = (\<lambda>r. None), loadEntry = (\<lambda>k. Inr None)\<rparr>"

text \<open>The same filesystem with a filer that rejects every create request.\<close>

definition ex_failing_wfs :: WFS where
  "ex_failing_wfs = ex_wfs\<lparr>filer_CreateEntry := (\<lambda>r. Some (Err ''exists''))\<rparr>"

definition ex_dir :: Dir where
  "ex_dir = \<lparr>FullPath = ''/d''\<rparr>"

definition ex_file :: File where
  "ex_file = \<lparr>fName = ''a.txt'', fdir = ex_dir, entry = Some ex_entry\<rparr>"

definition ex_link :: LinkRequest where
  "ex_link = \<lparr>lr_NewName = ''b.txt''\<rparr>"

definition ex_links :: "LinkRequest list" where
  "ex_links = [\<lparr>lr_NewName = ''b.txt''\<rparr>, \<lparr>lr_NewName = ''c.txt''\<rparr>,
               \<lparr>lr_NewName = ''d.txt''\<rparr>]"

text \<open>The existing entry and the two requests as the filer receives them in the
  scenario: the identifiers are in filer space.\<close>

definition ex_sent_entry :: "FuseAttributes Entry" where
  "ex_sent_entry =
     \<lparr>Name = ''a.txt'', IsDirectory = False,
      Attributes = Some (ex_attrs\<lparr>Uid := 2000, Gid := 2000\<rparr>),
      Chunks = [FileChunk ''3,01637037d6''], Extended = Map.empty,
      HardLinkId = RandomBytes ex_wfs 16 @ [HARD_LINK_MARKER], HardLinkCounter = 2\<rparr>"

definition ex_update :: "FuseAttributes EntryRequest" where
  "ex_update = \<lparr>Directory = ''/d'', Entry = ex_sent_entry, Signatures = [7]\<rparr>"

definition ex_create :: "FuseAttributes EntryRequest" where
  "ex_create = \<lparr>Directory = ''/d'', Entry = ex_sent_entry\<lparr>Name := ''b.txt''\<rparr>,
                Signatures = [7]\<rparr>"

definition ex_symlink :: SymlinkRequest where
  "ex_symlink = \<lparr>sr_NewName = ''link1'', sr_Target = ''/target/path'',
                 sr_Uid = 1000, sr_Gid = 1000\<rparr>"

section \<open>Properties\<close>

subsection \<open>Auxiliary facts\<close>

lemma mapOut_fields [simp]:
  "trace (mapPbIdFromLocalToFiler wfs e w) = trace w"
  "metaCache (mapPbIdFromLocalToFiler wfs e w) = metaCache w"
  "next_addr (mapPbIdFromLocalToFiler wfs e w) = next_addr w"
  by (simp_all add: mapPbIdFromLocalToFiler_def Let_def split: option.splits prod.splits)

lemma mapBack_fields [simp]:
  "trace (mapPbIdFromFilerToLocal wfs e w) = trace w"
  "metaCache (mapPbIdFromFilerToLocal wfs e w) = metaCache w"
  "next_addr (mapPbIdFromFilerToLocal wfs e w) = next_addr w"
  by (simp_all add: mapPbIdFromFilerToLocal_def Let_def split: option.splits prod.splits)

lemma deref_upd [simp]:
  "deref (w\<lparr>trace := t\<rparr>) e = deref w e"
  "deref (w\<lparr>metaCache := m\<rparr>) e = deref w e"
  by (simp_all add: deref_def)

lemma serialize_upd [simp]:
  "serialize (w\<lparr>trace := t\<rparr>) r = serialize w r"
  "serialize (w\<lparr>metaCache := m\<rparr>) r = serialize w r"
  by (simp_all add: serialize_def)

lemma serialize_sel [simp]:
  "Directory (serialize w r) = Directory r"
  "Entry (serialize w r) = deref w (Entry r)"
  "Signatures (serialize w r) = Signatures r"
  by (simp_all add: serialize_def)

lemma deref_sel [simp]:
  "Name (deref w e) = Name e"
  "IsDirectory (deref w e) = IsDirectory e"
  "Attributes (deref w e) = map_option (heap w) (Attributes e)"
  "Chunks (deref w e) = Chunks e"
  "Extended (deref w e) = Extended e"
  "HardLinkId (deref w e) = HardLinkId e"
  "HardLinkCounter (deref w e) = HardLinkCounter e"
  by (simp_all add: deref_def)

lemma Link_body_update_fails:
  "filer_UpdateEntry wfs (serialize w upd) = Some err \<Longrightarrow>
   Link_body wfs upd req w =
     (Some EIO, w\<lparr>trace := trace w @ [RemoteUpdateEntry (serialize w upd) False]\<rparr>)"
  by (simp add: Link_body_def filer_pb_UpdateEntry_def Let_def)

lemma Link_body_create_fails:
  "filer_UpdateEntry wfs (serialize w upd) = None \<Longrightarrow>
   filer_CreateEntry wfs (serialize w req) = Some err \<Longrightarrow>
   Link_body wfs upd req w =
     (Some EIO,
      w\<lparr>metaCache := (metaCache w)((Directory upd, Name (Entry upd)) \<mapsto> deref w (Entry upd)),
        trace := trace w @ [RemoteUpdateEntry (serialize w upd) True,
                            CacheUpdateEntry (Directory upd, deref w (Entry upd)),
                            RemoteCreateEntry (serialize w req) False]\<rparr>)"
  by (simp add: Link_body_def filer_pb_UpdateEntry_def filer_pb_CreateEntry_def
      metaCache_UpdateEntry_def FromPbEntry_def Let_def)

lemma Link_body_succeeds:
  "filer_UpdateEntry wfs (serialize w upd) = None \<Longrightarrow>
   filer_CreateEntry wfs (serialize w req) = None \<Longrightarrow>
   Link_body wfs upd req w =
     (None,
      w\<lparr>metaCache := (metaCache w)((Directory upd, Name (Entry upd)) \<mapsto> deref w (Entry upd),
                                    (Directory req, Name (Entry req)) \<mapsto> deref w (Entry req)),
        trace := trace w @ [RemoteUpdateEntry (serialize w upd) True,
                            CacheUpdateEntry (Directory upd, deref w (Entry upd)),
                            RemoteCreateEntry (serialize w req) True,
                            CacheInsertEntry (Directory req, deref w (Entry req))]\<rparr>)"
  by (simp add: Link_body_def filer_pb_UpdateEntry_def filer_pb_CreateEntry_def
      metaCache_UpdateEntry_def metaCache_InsertEntry_def FromPbEntry_def Let_def)

lemma maybeLoadEntry_resident:
  "entry f = Some e \<Longrightarrow> maybeLoadEntry wfs f w = (Inr (Some e), f, w)"
  by (simp add: maybeLoadEntry_def)

lemma maybeLoadEntry_newFile [simp]:
  "maybeLoadEntry wfs (newFile d n e) w = (Inr (Some e), newFile d n e, w)"
  by (simp add: maybeLoadEntry_def newFile_def)

lemma materialize_trace [simp]:
  "trace (snd (materialize se w)) = trace w"
  "metaCache (snd (materialize se w)) = metaCache w"
  by (simp_all add: materialize_def alloc_def Let_def split: option.splits)

lemma maybeLoadEntry_trace:
  "maybeLoadEntry wfs f w = (lr, f1, w1) \<Longrightarrow>
   trace w1 = trace w @ (if entry f = None then [LoadEntry (FullPath (fdir f)) (fName f)] else [])"
  by (auto simp: maybeLoadEntry_def Let_def split: option.splits sum.splits prod.splits
      dest: arg_cong [where f = "\<lambda>p. trace (snd p)"])

lemma maybeLoadEntry_metaCache:
  "maybeLoadEntry wfs f w = (lr, f1, w1) \<Longrightarrow> metaCache w1 = metaCache w"
  by (auto simp: maybeLoadEntry_def Let_def split: option.splits sum.splits prod.splits
      dest: arg_cong [where f = "\<lambda>p. metaCache (snd p)"])

lemma Link_FileNode:
  assumes "\<not> ReadOnly wfs" and "maybeLoadEntry wfs f w = (Inr x, f1, w1)"
    and "entry f1 = Some e0"
  shows "Link wfs dir lreq (FileNode f) w =
     (case WithFilerClient wfs
             (Link_callback wfs (fst (Link_requests wfs dir lreq f1 (stamp wfs e0)))
                (snd (Link_requests wfs dir lreq f1 (stamp wfs e0)))) w1 of
        (Some err, w2) \<Rightarrow>
          (Return (None, Some EIO), FileNode (f1\<lparr>entry := Some (stamp wfs e0)\<rparr>), w2)
      | (None, w2) \<Rightarrow>
          (Return (Some (newFile dir (lr_NewName lreq)
                     (Entry (snd (Link_requests wfs dir lreq f1 (stamp wfs e0))))), None),
           FileNode (f1\<lparr>entry := Some (stamp wfs e0)\<rparr>), w2))"
  using assms
  by (simp add: Link_def Let_def split: prod.splits option.splits)

lemma Link_callback_eq:
  "Link_callback wfs upd req w =
     (fst (Link_body wfs upd req (mapPbIdFromLocalToFiler wfs (Entry req) w)),
      mapPbIdFromFilerToLocal wfs (Entry req)
        (snd (Link_body wfs upd req (mapPbIdFromLocalToFiler wfs (Entry req) w))))"
  by (simp add: Link_callback_def Let_def split: prod.splits)

lemma symlink_bit: "(m AND ModeSymlink = 0) = (\<not> bit m 27)" for m :: uint32
  unfolding ModeSymlink_def push_bit_of_1 by (rule and_exp_eq_0_iff_not_bit)

lemma Symlink_callback_eq:
  "Symlink_callback wfs req w =
     (let w1 = mapPbIdFromLocalToFiler wfs (Entry req) w; sent = serialize w1 req
      in if filer_CreateEntry wfs sent = None
         then (None, mapPbIdFromFilerToLocal wfs (Entry req)
                 (w1\<lparr>metaCache := (metaCache w)((Directory req, Name (Entry req)) \<mapsto>
                                     Entry sent),
                     trace := trace w @ [RemoteCreateEntry sent True,
                                         CacheInsertEntry (Directory sent, Entry sent)]\<rparr>))
         else (Some EIO, mapPbIdFromFilerToLocal wfs (Entry req)
                 (w1\<lparr>trace := trace w @ [RemoteCreateEntry sent False]\<rparr>)))"
  by (simp add: Symlink_callback_def filer_pb_CreateEntry_def metaCache_InsertEntry_def
      FromPbEntry_def Let_def split: option.splits)

lemma Symlink_eq:
  "\<not> ReadOnly wfs \<Longrightarrow>
   Symlink wfs dir req w =
     (Return (Some (newFile dir (sr_NewName req)
                (Entry (Symlink_request wfs dir req (next_addr w)))),
              fst (WithFilerClient wfs
                     (Symlink_callback wfs (Symlink_request wfs dir req (next_addr w)))
                     (snd (alloc (Symlink_attributes wfs req) w)))),
      snd (WithFilerClient wfs
             (Symlink_callback wfs (Symlink_request wfs dir req (next_addr w)))
             (snd (alloc (Symlink_attributes wfs req) w))))"
  by (simp add: Symlink_def alloc_def Let_def split: prod.splits)

lemma Symlink_sent:
  "serialize (mapPbIdFromLocalToFiler wfs (Entry (Symlink_request wfs dir req (next_addr w)))
               (snd (alloc (Symlink_attributes wfs req) w)))
     (Symlink_request wfs dir req (next_addr w)) =
   \<lparr>Directory = FullPath dir,
      Entry = \<lparr>Name = sr_NewName req, IsDirectory = False,
               Attributes = Some \<lparr>Mtime = Now wfs 0, Crtime = Now wfs 1,
                                  FileMode = (511 OR ModeSymlink) AND NOT (Umask wfs),
                                  Uid = fst (LocalToFiler wfs (sr_Uid req, sr_Gid req)),
                                  Gid = snd (LocalToFiler wfs (sr_Uid req, sr_Gid req)),
                                  SymlinkTarget = sr_Target req\<rparr>,
               Chunks = [], Extended = Map.empty, HardLinkId = [],
               HardLinkCounter = 0\<rparr>,
      Signatures = [signature wfs]\<rparr>"
  by (simp add: serialize_def deref_def Symlink_request_def mapPbIdFromLocalToFiler_def
      alloc_def Symlink_attributes_def Let_def split: prod.splits)

lemma Symlink_trace:
  assumes "\<not> ReadOnly wfs"
  shows "trace (snd (Symlink wfs dir req w)) =
           trace w @
             (case filer_conn wfs of
                Some err \<Rightarrow> []
              | None \<Rightarrow>
                  (let sent = serialize
                         (mapPbIdFromLocalToFiler wfs
                            (Entry (Symlink_request wfs dir req (next_addr w)))
                            (snd (alloc (Symlink_attributes wfs req) w)))
                         (Symlink_request wfs dir req (next_addr w))
                   in if filer_CreateEntry wfs sent = None
                      then [RemoteCreateEntry sent True,
                            CacheInsertEntry (Directory sent, Entry sent)]
                      else [RemoteCreateEntry sent False]))"
proof -
  define rq where "rq = Symlink_request wfs dir req (next_addr w)"
  define w1 where "w1 = snd (alloc (Symlink_attributes wfs req) w)"
  have t: "trace w1 = trace w"
    by (simp add: w1_def alloc_def)
  have e: "snd (Symlink wfs dir req w) = snd (WithFilerClient wfs (Symlink_callback wfs rq) w1)"
    using assms(1) by (simp add: Symlink_eq rq_def w1_def)
  show ?thesis
    unfolding rq_def [symmetric] w1_def [symmetric]
    by (cases "filer_conn wfs")
       (simp_all add: e WithFilerClient_def Symlink_callback_eq t Let_def
          del: serialize_sel deref_sel)
qed

lemma Symlink_result:
  assumes "\<not> ReadOnly wfs"
  shows "fst (Symlink wfs dir req w) =
           Return (Some (newFile dir (sr_NewName req)
                     (Entry (Symlink_request wfs dir req (next_addr w)))),
                   case filer_conn wfs of
                     Some err \<Rightarrow> Some err
                   | None \<Rightarrow>
                       if filer_CreateEntry wfs
                            (serialize
                               (mapPbIdFromLocalToFiler wfs
                                  (Entry (Symlink_request wfs dir req (next_addr w)))
                                  (snd (alloc (Symlink_attributes wfs req) w)))
                               (Symlink_request wfs dir req (next_addr w))) = None
                       then None else Some EIO)"
proof -
  define rq where "rq = Symlink_request wfs dir req (next_addr w)"
  define w1 where "w1 = snd (alloc (Symlink_attributes wfs req) w)"
  have e: "fst (Symlink wfs dir req w) =
             Return (Some (newFile dir (sr_NewName req) (Entry rq)),
                     fst (WithFilerClient wfs (Symlink_callback wfs rq) w1))"
    using assms(1) by (simp add: Symlink_eq rq_def w1_def)
  show ?thesis
    unfolding rq_def [symmetric] w1_def [symmetric]
    by (cases "filer_conn wfs")
       (simp_all add: e WithFilerClient_def Symlink_callback_eq Let_def
          del: serialize_sel deref_sel)
qed

lemma ex_symlink_sent:
  "serialize (mapPbIdFromLocalToFiler ex_wfs
                (Entry (Symlink_request ex_wfs ex_dir ex_symlink (next_addr ex_world)))
                (snd (alloc (Symlink_attributes ex_wfs ex_symlink) ex_world)))
     (Symlink_request ex_wfs ex_dir ex_symlink (next_addr ex_world)) =
   \<lparr>Directory = ''/d'',
      Entry = \<lparr>Name = ''link1'', IsDirectory = False,
               Attributes = Some \<lparr>Mtime = 1700000000, Crtime = 1700000000,
                                  FileMode = 134218221,
                                  Uid = 2000, Gid = 2000,
                                  SymlinkTarget = ''/target/path''\<rparr>,
               Chunks = [], Extended = Map.empty, HardLinkId = [],
               HardLinkCounter = 0\<rparr>,
      Signatures = [7]\<rparr>"
  by (simp add: serialize_def deref_def Symlink_request_def mapPbIdFromLocalToFiler_def
      alloc_def Symlink_attributes_def Let_def ex_wfs_def ex_dir_def ex_symlink_def
      ex_world_def ModeSymlink_def split: prod.splits)

lemma mapBack_heap_cong:
  "heap w2 = heap w1 \<Longrightarrow>
   heap (mapPbIdFromFilerToLocal wfs e w2) = heap (mapPbIdFromFilerToLocal wfs e w1)"
  by (simp add: mapPbIdFromFilerToLocal_def Let_def split: option.splits prod.splits)

lemma Link_body_heap: "heap (snd (Link_body wfs upd req w)) = heap w"
proof (cases "filer_UpdateEntry wfs (serialize w upd)")
  case (Some err)
  then show ?thesis by (simp add: Link_body_update_fails)
next
  case None
  then show ?thesis
    by (cases "filer_CreateEntry wfs (serialize w req)")
       (simp_all add: Link_body_succeeds Link_body_create_fails)
qed

lemma map_round_trip:
  assumes "\<forall>u g. FilerToLocal wfs (LocalToFiler wfs (u, g)) = (u, g)"
  shows "mapPbIdFromFilerToLocal wfs e (mapPbIdFromLocalToFiler wfs e w) = w"
proof (cases "Attributes e")
  case None
  then show ?thesis
    by (simp add: mapPbIdFromFilerToLocal_def mapPbIdFromLocalToFiler_def)
next
  case (Some p)
  obtain u g where lf: "LocalToFiler wfs (Uid (heap w p), Gid (heap w p)) = (u, g)"
    by (cases "LocalToFiler wfs (Uid (heap w p), Gid (heap w p))") simp
  have fl: "FilerToLocal wfs (u, g) = (Uid (heap w p), Gid (heap w p))"
    using assms lf by metis
  show ?thesis
    by (simp add: mapPbIdFromFilerToLocal_def mapPbIdFromLocalToFiler_def Some lf fl)
qed

lemma mapBack_heap_upd [simp]:
  "heap (mapPbIdFromFilerToLocal wfs e (w\<lparr>trace := t\<rparr>)) = heap (mapPbIdFromFilerToLocal wfs e w)"
  "heap (mapPbIdFromFilerToLocal wfs e (w\<lparr>metaCache := m\<rparr>)) = heap (mapPbIdFromFilerToLocal wfs e w)"
  by (rule mapBack_heap_cong, simp)+

lemma Symlink_callback_heap:
  "heap (snd (Symlink_callback wfs req w)) =
   heap (mapPbIdFromFilerToLocal wfs (Entry req) (mapPbIdFromLocalToFiler wfs (Entry req) w))"
  by (simp add: Symlink_callback_eq Let_def del: serialize_sel deref_sel)

lemma Link_callback_heap:
  "heap (snd (Link_callback wfs upd req w)) =
   heap (mapPbIdFromFilerToLocal wfs (Entry req) (mapPbIdFromLocalToFiler wfs (Entry req) w))"
  unfolding Link_callback_eq snd_conv
  by (rule mapBack_heap_cong) (rule Link_body_heap)

lemma Link_heap_resident:
  assumes "entry f = Some e"
  shows "heap (snd (snd (Link wfs dir lreq (FileNode f) w))) =
     (if ReadOnly wfs \<or> filer_conn wfs \<noteq> None then heap w
      else heap (snd (Link_callback wfs (fst (Link_requests wfs dir lreq f (stamp wfs e)))
                (snd (Link_requests wfs dir lreq f (stamp wfs e))) w)))"
proof (cases "ReadOnly wfs")
  case True
  then show ?thesis by (simp add: Link_def)
next
  case False
  show ?thesis
    unfolding Link_FileNode [OF False maybeLoadEntry_resident [OF assms] assms]
    using False
    by (cases "filer_conn wfs") (simp_all add: WithFilerClient_def split: prod.splits option.splits)
qed

lemma Link_callback_trace:
  "trace (snd (Link_callback wfs upd req w)) =
     trace w @
       (let wo = mapPbIdFromLocalToFiler wfs (Entry req) w;
            u = serialize wo upd; c = serialize wo req
        in if filer_UpdateEntry wfs u \<noteq> None then [RemoteUpdateEntry u False]
           else RemoteUpdateEntry u True # CacheUpdateEntry (Directory u, Entry u) #
                (if filer_CreateEntry wfs c \<noteq> None then [RemoteCreateEntry c False]
                 else [RemoteCreateEntry c True, CacheInsertEntry (Directory c, Entry c)]))"
proof -
  define wo where "wo = mapPbIdFromLocalToFiler wfs (Entry req) w"
  have t: "trace wo = trace w" by (simp add: wo_def)
  show ?thesis
    unfolding Link_callback_eq wo_def [symmetric] Let_def
  proof (cases "filer_UpdateEntry wfs (serialize wo upd)")
    case (Some err)
    then show "trace (snd (fst (Link_body wfs upd req wo),
                 mapPbIdFromFilerToLocal wfs (Entry req) (snd (Link_body wfs upd req wo)))) =
      trace w @ (if filer_UpdateEntry wfs (serialize wo upd) \<noteq> None
         then [RemoteUpdateEntry (serialize wo upd) False]
         else RemoteUpdateEntry (serialize wo upd) True #
              CacheUpdateEntry (Directory (serialize wo upd), Entry (serialize wo upd)) #
              (if filer_CreateEntry wfs (serialize wo req) \<noteq> None
               then [RemoteCreateEntry (serialize wo req) False]
               else [RemoteCreateEntry (serialize wo req) True,
                     CacheInsertEntry (Directory (serialize wo req), Entry (serialize wo req))]))"
      by (simp add: Link_body_update_fails t del: serialize_sel deref_sel)
  next
    case None
    then show "trace (snd (fst (Link_body wfs upd req wo),
                 mapPbIdFromFilerToLocal wfs (Entry req) (snd (Link_body wfs upd req wo)))) =
      trace w @ (if filer_UpdateEntry wfs (serialize wo upd) \<noteq> None
         then [RemoteUpdateEntry (serialize wo upd) False]
         else RemoteUpdateEntry (serialize wo upd) True #
              CacheUpdateEntry (Directory (serialize wo upd), Entry (serialize wo upd)) #
              (if filer_CreateEntry wfs (serialize wo req) \<noteq> None
               then [RemoteCreateEntry (serialize wo req) False]
               else [RemoteCreateEntry (serialize wo req) True,
                     CacheInsertEntry (Directory (serialize wo req), Entry (serialize wo req))]))"
      by (cases "filer_CreateEntry wfs (serialize wo req)")
         (simp_all add: Link_body_create_fails Link_body_succeeds t)
  qed
qed

lemma Link_trace_shape:
  "\<exists>pre body.
     trace (snd (snd (Link wfs dir lreq old w))) = trace w @ pre @ body \<and>
     (pre = [] \<or> (\<exists>d n. pre = [LoadEntry d n])) \<and>
     (body = [] \<or> (\<exists>u. body = [RemoteUpdateEntry u False]) \<or>
      (\<exists>u c. body = [RemoteUpdateEntry u True, CacheUpdateEntry (Directory u, Entry u),
                      RemoteCreateEntry c False]) \<or>
      (\<exists>u c. body = [RemoteUpdateEntry u True, CacheUpdateEntry (Directory u, Entry u),
                      RemoteCreateEntry c True, CacheInsertEntry (Directory c, Entry c)]))"
  (is "\<exists>pre body. ?P pre body")
proof (cases "ReadOnly wfs")
  case True
  then have "?P [] []" by (simp add: Link_def)
  then show ?thesis by blast
next
  case False
  show ?thesis
  proof (cases old)
    case (DirNode d)
    with False have "?P [] []" by (simp add: Link_def)
    then show ?thesis by blast
  next
    case (FileNode f)
    obtain lr f1 w1 where ld: "maybeLoadEntry wfs f w = (lr, f1, w1)"
      by (cases "maybeLoadEntry wfs f w") auto
    define pre where
      "pre = (if entry f = None then [LoadEntry (FullPath (fdir f)) (fName f)] else [])"
    have t1: "trace w1 = trace w @ pre"
      using maybeLoadEntry_trace [OF ld] by (simp add: pre_def)
    have p: "pre = [] \<or> (\<exists>d n. pre = [LoadEntry d n])"
      by (simp add: pre_def)
    have stop: "?P pre []" if "snd (snd (Link wfs dir lreq old w)) = w1"
      using that t1 p by simp
    show ?thesis
    proof (cases lr)
      case (Inl err)
      with False FileNode ld have "snd (snd (Link wfs dir lreq old w)) = w1"
        by (simp add: Link_def)
      from stop [OF this] show ?thesis by blast
    next
      case (Inr x)
      show ?thesis
      proof (cases "entry f1")
        case None
        with False FileNode ld Inr have "snd (snd (Link wfs dir lreq old w)) = w1"
          by (simp add: Link_def)
        from stop [OF this] show ?thesis by blast
      next
        case (Some e0)
        define upd where "upd = fst (Link_requests wfs dir lreq f1 (stamp wfs e0))"
        define req where "req = snd (Link_requests wfs dir lreq f1 (stamp wfs e0))"
        note L = Link_FileNode [OF False ld [unfolded Inr] Some, of dir lreq,
            folded upd_def req_def]
        show ?thesis
        proof (cases "filer_conn wfs")
          case (Some err)
          then have "snd (snd (Link wfs dir lreq old w)) = w1"
            by (simp add: FileNode L WithFilerClient_def)
          from stop [OF this] show ?thesis by blast
        next
          case None
          define wo where "wo = mapPbIdFromLocalToFiler wfs (Entry req) w1"
          define u where "u = serialize wo upd"
          define c where "c = serialize wo req"
          define body where "body =
            (if filer_UpdateEntry wfs u \<noteq> None then [RemoteUpdateEntry u False]
             else RemoteUpdateEntry u True # CacheUpdateEntry (Directory u, Entry u) #
                (if filer_CreateEntry wfs c \<noteq> None then [RemoteCreateEntry c False]
                 else [RemoteCreateEntry c True, CacheInsertEntry (Directory c, Entry c)]))"
          have "snd (snd (Link wfs dir lreq old w)) = snd (Link_callback wfs upd req w1)"
            using None by (simp add: FileNode L WithFilerClient_def split: prod.splits option.splits)
          then have "trace (snd (snd (Link wfs dir lreq old w))) = trace w1 @ body"
            by (simp only: Link_callback_trace Let_def body_def u_def c_def wo_def)
          then have "trace (snd (snd (Link wfs dir lreq old w))) = trace w @ pre @ body"
            by (simp add: t1)
          moreover have "body = [] \<or> (\<exists>u. body = [RemoteUpdateEntry u False]) \<or>
            (\<exists>u c. body = [RemoteUpdateEntry u True, CacheUpdateEntry (Directory u, Entry u),
                      RemoteCreateEntry c False]) \<or>
            (\<exists>u c. body = [RemoteUpdateEntry u True, CacheUpdateEntry (Directory u, Entry u),
                      RemoteCreateEntry c True, CacheInsertEntry (Directory c, Entry c)])"
            unfolding body_def by (simp del: not_None_eq)
          ultimately have "?P pre body" using p by blast
          then show ?thesis by blast
        qed
      qed
    qed
  qed
qed

lemma ordered_events:
  assumes "pre = [] \<or> (\<exists>d n. pre = [LoadEntry d n])"
    and "body = [] \<or> (\<exists>u. body = [RemoteUpdateEntry u False]) \<or>
      (\<exists>u c. body = [RemoteUpdateEntry u True, CacheUpdateEntry (Directory u, Entry u),
                      RemoteCreateEntry c False]) \<or>
      (\<exists>u c. body = [RemoteUpdateEntry u True, CacheUpdateEntry (Directory u, Entry u),
                      RemoteCreateEntry c True, CacheInsertEntry (Directory c, Entry c)])"
  shows "cache_after_remote [] (pre @ body) \<and> no_write_after_failure (pre @ body)"
  using assms
  by (elim disjE exE) (simp_all add: no_write_after_failure_def)

lemma Link_outcomes:
  fixes wfs :: WFS and dir :: Dir and lreq :: LinkRequest and f1 :: File and e0 :: "addr Entry"
    and w1 :: world
  assumes ld: "maybeLoadEntry wfs f w = (lr, f1, w1)" and e0: "entry f1 = Some e0"
  defines "e \<equiv> stamp wfs e0"
    and "upd \<equiv> fst (Link_requests wfs dir lreq f1 (stamp wfs e0))"
    and "req \<equiv> snd (Link_requests wfs dir lreq f1 (stamp wfs e0))"
  defines "wo \<equiv> mapPbIdFromLocalToFiler wfs (Entry req) w1"
  defines "u \<equiv> serialize wo upd" and "c \<equiv> serialize wo req"
  shows "Link wfs dir lreq (FileNode f) w =
     (if ReadOnly wfs then (Return (None, Some EPERM), FileNode f, w)
      else case lr of
        Inl err \<Rightarrow> (Return (None, Some err), FileNode f1, w1)
      | Inr x \<Rightarrow>
         (case filer_conn wfs of
            Some err \<Rightarrow> (Return (None, Some EIO), FileNode (f1\<lparr>entry := Some e\<rparr>), w1)
          | None \<Rightarrow>
             if filer_UpdateEntry wfs u \<noteq> None
             then (Return (None, Some EIO), FileNode (f1\<lparr>entry := Some e\<rparr>),
                   mapPbIdFromFilerToLocal wfs (Entry req)
                     (wo\<lparr>trace := trace w1 @ [RemoteUpdateEntry u False]\<rparr>))
             else if filer_CreateEntry wfs c \<noteq> None
             then (Return (None, Some EIO), FileNode (f1\<lparr>entry := Some e\<rparr>),
                   mapPbIdFromFilerToLocal wfs (Entry req)
                     (wo\<lparr>metaCache := (metaCache w1)((Directory u, Name (Entry u)) \<mapsto> Entry u),
                        trace := trace w1 @ [RemoteUpdateEntry u True,
                                             CacheUpdateEntry (Directory u, Entry u),
                                             RemoteCreateEntry c False]\<rparr>))
             else (Return (Some (newFile dir (lr_NewName lreq) (Entry req)), None),
                   FileNode (f1\<lparr>entry := Some e\<rparr>),
                   mapPbIdFromFilerToLocal wfs (Entry req)
                     (wo\<lparr>metaCache := (metaCache w1)((Directory u, Name (Entry u)) \<mapsto> Entry u,
                                                     (Directory c, Name (Entry c)) \<mapsto> Entry c),
                        trace := trace w1 @ [RemoteUpdateEntry u True,
                                             CacheUpdateEntry (Directory u, Entry u),
                                             RemoteCreateEntry c True,
                                             CacheInsertEntry (Directory c, Entry c)]\<rparr>))))"
proof (cases "ReadOnly wfs")
  case True
  then show ?thesis by (simp add: Link_def)
next
  case False
  show ?thesis
  proof (cases lr)
    case (Inl err)
    with False ld show ?thesis by (simp add: Link_def)
  next
    case (Inr x)
    note L = Link_FileNode [OF False ld [unfolded Inr] e0, of dir lreq,
        folded upd_def req_def e_def]
    show ?thesis
    proof (cases "filer_conn wfs")
      case (Some err)
      with False Inr show ?thesis by (simp add: L WithFilerClient_def)
    next
      case None
      have m: "metaCache wo = metaCache w1" "trace wo = trace w1"
        by (simp_all add: wo_def)
      have B: "Link_body wfs upd req wo =
        (if filer_UpdateEntry wfs u \<noteq> None
         then (Some EIO, wo\<lparr>trace := trace w1 @ [RemoteUpdateEntry u False]\<rparr>)
         else if filer_CreateEntry wfs c \<noteq> None
         then (Some EIO,
               wo\<lparr>metaCache := (metaCache w1)((Directory u, Name (Entry u)) \<mapsto> Entry u),
                  trace := trace w1 @ [RemoteUpdateEntry u True,
                                       CacheUpdateEntry (Directory u, Entry u),
                                       RemoteCreateEntry c False]\<rparr>)
         else (None,
               wo\<lparr>metaCache := (metaCache w1)((Directory u, Name (Entry u)) \<mapsto> Entry u,
                                               (Directory c, Name (Entry c)) \<mapsto> Entry c),
                  trace := trace w1 @ [RemoteUpdateEntry u True,
                                       CacheUpdateEntry (Directory u, Entry u),
                                       RemoteCreateEntry c True,
                                       CacheInsertEntry (Directory c, Entry c)]\<rparr>))"
        unfolding u_def c_def
        by (cases "filer_UpdateEntry wfs (serialize wo upd)";
            cases "filer_CreateEntry wfs (serialize wo req)")
           (simp_all add: Link_body_update_fails Link_body_create_fails Link_body_succeeds m)
      show ?thesis
        using False Inr None
        by (simp add: L WithFilerClient_def Link_callback_eq wo_def [symmetric] B)
    qed
  qed
qed

lemma Link_requests_sel [simp]:
  "Directory (fst (Link_requests wfs dir lreq f e)) = FullPath (fdir f)"
  "Entry (fst (Link_requests wfs dir lreq f e)) = e"
  "Signatures (fst (Link_requests wfs dir lreq f e)) = [signature wfs]"
  "Directory (snd (Link_requests wfs dir lreq f e)) = FullPath dir"
  "Signatures (snd (Link_requests wfs dir lreq f e)) = [signature wfs]"
  "Name (Entry (snd (Link_requests wfs dir lreq f e))) = lr_NewName lreq"
  "IsDirectory (Entry (snd (Link_requests wfs dir lreq f e))) = False"
  "Attributes (Entry (snd (Link_requests wfs dir lreq f e))) = Attributes e"
  "Chunks (Entry (snd (Link_requests wfs dir lreq f e))) = Chunks e"
  "Extended (Entry (snd (Link_requests wfs dir lreq f e))) = Extended e"
  "HardLinkId (Entry (snd (Link_requests wfs dir lreq f e))) = HardLinkId e"
  "HardLinkCounter (Entry (snd (Link_requests wfs dir lreq f e))) = HardLinkCounter e"
  by (simp_all add: Link_requests_def)

lemma stamp_sel [simp]:
  "Name (stamp wfs e) = Name e"
  "IsDirectory (stamp wfs e) = IsDirectory e"
  "Attributes (stamp wfs e) = Attributes e"
  "Chunks (stamp wfs e) = Chunks e"
  "Extended (stamp wfs e) = Extended e"
  "HardLinkId (stamp wfs e) =
     (if HardLinkId e = [] then RandomBytes wfs 16 @ [HARD_LINK_MARKER] else HardLinkId e)"
  "HardLinkCounter (stamp wfs e) = (if HardLinkId e = [] then 2 else HardLinkCounter e + 1)"
  by (simp_all add: stamp_def Let_def)

lemma sint_of_nat32:
  assumes "n < 2 ^ 31"
  shows "sint (of_nat n :: 32 word) = int n"
proof -
  have "sint (of_nat n :: 32 word) = signed_take_bit 31 (int n)"
    by (simp add: signed_of_nat)
  also have "\<dots> = int n"
    by (rule signed_take_bit_int_eq_self) (use assms in simp_all)
  finally show ?thesis .
qed

lemma length_HardLinkId: "length (RandomBytes wfs 16 @ [HARD_LINK_MARKER]) = 17"
  by (simp add: RandomBytes_def)

lemma Link_success:
  fixes wfs :: WFS and dir :: Dir and lreq :: LinkRequest and f1 :: File and e0 :: "addr Entry"
    and w1 :: world
  assumes ld: "maybeLoadEntry wfs f w = (lr, f1, w1)" and e0: "entry f1 = Some e0"
    and run: "Link wfs dir lreq (FileNode f) w = (r, old', w')" and ok: "succeeded r"
  defines "req \<equiv> snd (Link_requests wfs dir lreq f1 (stamp wfs e0))"
  defines "wo \<equiv> mapPbIdFromLocalToFiler wfs (Entry req) w1"
  defines "u \<equiv> serialize wo (fst (Link_requests wfs dir lreq f1 (stamp wfs e0)))"
    and "c \<equiv> serialize wo req"
  shows "r = Return (Some (newFile dir (lr_NewName lreq) (Entry req)), None) \<and>
         old' = FileNode (f1\<lparr>entry := Some (stamp wfs e0)\<rparr>) \<and>
         trace w' = trace w1 @ [RemoteUpdateEntry u True,
                                CacheUpdateEntry (Directory u, Entry u),
                                RemoteCreateEntry c True,
                                CacheInsertEntry (Directory c, Entry c)]"
proof -
  note O = Link_outcomes [OF ld e0, of dir lreq, folded req_def, folded wo_def,
      folded u_def c_def]
  have a: "\<not> ReadOnly wfs"
    using run ok O by (auto split: if_splits)
  obtain x where b: "lr = Inr x"
    using run ok O a by (cases lr) auto
  have c0: "filer_conn wfs = None"
    using run ok O a b by (cases "filer_conn wfs") auto
  have d: "filer_UpdateEntry wfs u = None"
    using run ok O a b c0 by (cases "filer_UpdateEntry wfs u") auto
  have e: "filer_CreateEntry wfs c = None"
    using run ok O a b c0 d by (cases "filer_CreateEntry wfs c") auto
  from run O a b c0 d e show ?thesis
    by auto
qed

lemma stamp_funpow:
  assumes "HardLinkId e \<noteq> []"
  shows "(stamp wfs ^^ n) e = e\<lparr>HardLinkCounter := HardLinkCounter e + of_nat n\<rparr>"
proof (induction n)
  case 0
  show ?case by simp
next
  case (Suc n)
  then show ?case
    using assms by (simp add: stamp_def Let_def add.assoc)
qed

lemma Link_all_length:
  "Link_all wfs dir reqs old w = (rs, old', w') \<Longrightarrow> length rs = length reqs"
  by (induction reqs arbitrary: old w rs old' w') (auto split: prod.splits)

lemma Link_all_resident:
  assumes "entry f = Some e"
    and "Link_all wfs dir reqs (FileNode f) w = (rs, old', w')"
    and "list_all succeeded rs"
  shows "old' = FileNode (f\<lparr>entry := Some ((stamp wfs ^^ length reqs) e)\<rparr>) \<and>
         (reqs \<noteq> [] \<longrightarrow>
            (\<exists>nf en. last rs = Return (Some nf, None) \<and> entry nf = Some en \<and>
               HardLinkId en = HardLinkId ((stamp wfs ^^ length reqs) e) \<and>
               HardLinkCounter en = HardLinkCounter ((stamp wfs ^^ length reqs) e)))"
  using assms
proof (induction reqs arbitrary: f e w rs old' w')
  case Nil
  then show ?case by (cases f) auto
next
  case (Cons q qs)
  obtain r old1 w1 where l: "Link wfs dir q (FileNode f) w = (r, old1, w1)"
    by (cases "Link wfs dir q (FileNode f) w") auto
  obtain rs1 where la: "Link_all wfs dir qs old1 w1 = (rs1, old', w')" and rs: "rs = r # rs1"
    using Cons.prems(2) l by (auto split: prod.splits)
  from Cons.prems(3) rs have ok: "succeeded r" and oks: "list_all succeeded rs1"
    by simp_all
  note S = Link_success [OF maybeLoadEntry_resident [OF Cons.prems(1)] Cons.prems(1) l ok]
  let ?f = "f\<lparr>entry := Some (stamp wfs e)\<rparr>"
  have o1: "old1 = FileNode ?f" using S by simp
  have e1: "entry ?f = Some (stamp wfs e)" by simp
  note IH = Cons.IH [OF e1 la [unfolded o1] oks]
  have p: "(stamp wfs ^^ length qs) (stamp wfs e) = (stamp wfs ^^ length (q # qs)) e"
    by (simp add: funpow_swap1)
  show ?case
  proof (cases "qs = []")
    case True
    with la rs S IH show ?thesis
      by (simp add: newFile_def)
  next
    case False
    with Link_all_length [OF la] have "rs1 \<noteq> []" by auto
    with False IH rs show ?thesis
      by (simp add: p del: funpow.simps)
  qed
qed

lemma ex_wfs_sel:
  "ReadOnly (ex_wfs\<lparr>filer_CreateEntry := g\<rparr>) = False"
  "filer_conn (ex_wfs\<lparr>filer_CreateEntry := g\<rparr>) = None"
  "filer_UpdateEntry (ex_wfs\<lparr>filer_CreateEntry := g\<rparr>) = (\<lambda>r. None)"
  "filer_CreateEntry (ex_wfs\<lparr>filer_CreateEntry := g\<rparr>) = g"
  "signature (ex_wfs\<lparr>filer_CreateEntry := g\<rparr>) = 7"
  "LocalToFiler (ex_wfs\<lparr>filer_CreateEntry := g\<rparr>) = (\<lambda>(u, g). (u + 1000, g + 1000))"
  "RandomBytes (ex_wfs\<lparr>filer_CreateEntry := g\<rparr>) = RandomBytes ex_wfs"
  by (simp_all add: ex_wfs_def RandomBytes_def fun_eq_iff)

lemma ex_wfs_plain: "ex_wfs\<lparr>filer_CreateEntry := (\<lambda>r. None)\<rparr> = ex_wfs"
  by (simp add: ex_wfs_def)

lemma ex_load:
  "maybeLoadEntry wfs ex_file w = (Inr (Some ex_entry), ex_file, w)"
  "entry ex_file = Some ex_entry" "HardLinkId ex_entry = []"
  by (simp_all add: maybeLoadEntry_def ex_file_def ex_entry_def)

lemma ex_sent:
  fixes g
  defines "wfs \<equiv> ex_wfs\<lparr>filer_CreateEntry := g\<rparr>"
  defines "req \<equiv> snd (Link_requests wfs ex_dir ex_link ex_file (stamp wfs ex_entry))"
  defines "wo \<equiv> mapPbIdFromLocalToFiler wfs (Entry req) ex_world"
  shows "serialize wo (fst (Link_requests wfs ex_dir ex_link ex_file (stamp wfs ex_entry)))
           = ex_update"
    and "serialize wo req = ex_create"
  by (simp_all add: serialize_def deref_def wo_def req_def wfs_def Link_requests_def
      stamp_def ex_wfs_sel mapPbIdFromLocalToFiler_def Let_def ex_update_def ex_create_def
      ex_sent_entry_def ex_entry_def ex_file_def ex_dir_def ex_link_def ex_world_def
      ex_attrs_def)

lemma ex_failing_run:
  "Link ex_failing_wfs ex_dir ex_link (FileNode ex_file) ex_world =
     (Return (None, Some EIO),
      FileNode (ex_file\<lparr>entry := Some (stamp ex_failing_wfs ex_entry)\<rparr>),
      mapPbIdFromFilerToLocal ex_failing_wfs
        (Entry (snd (Link_requests ex_failing_wfs ex_dir ex_link ex_file
                       (stamp ex_failing_wfs ex_entry))))
        ((mapPbIdFromLocalToFiler ex_failing_wfs
           (Entry (snd (Link_requests ex_failing_wfs ex_dir ex_link ex_file
                          (stamp ex_failing_wfs ex_entry)))) ex_world)
         \<lparr>metaCache := (metaCache ex_world)
                          ((Directory ex_update, Name (Entry ex_update)) \<mapsto> Entry ex_update),
           trace := trace ex_world @
                      [RemoteUpdateEntry ex_update True,
                       CacheUpdateEntry (Directory ex_update, Entry ex_update),
                       RemoteCreateEntry ex_create False]\<rparr>))"
  unfolding ex_failing_wfs_def
  by (simp only: Link_outcomes [OF ex_load(1) ex_load(2)] ex_sent ex_wfs_sel)
     simp

lemma ex_run:
  "Link ex_wfs ex_dir ex_link (FileNode ex_file) ex_world =
     (Return (Some (newFile ex_dir (lr_NewName ex_link)
                (Entry (snd (Link_requests ex_wfs ex_dir ex_link ex_file
                               (stamp ex_wfs ex_entry))))), None),
      FileNode (ex_file\<lparr>entry := Some (stamp ex_wfs ex_entry)\<rparr>),
      mapPbIdFromFilerToLocal ex_wfs
        (Entry (snd (Link_requests ex_wfs ex_dir ex_link ex_file (stamp ex_wfs ex_entry))))
        ((mapPbIdFromLocalToFiler ex_wfs
           (Entry (snd (Link_requests ex_wfs ex_dir ex_link ex_file
                          (stamp ex_wfs ex_entry)))) ex_world)
         \<lparr>metaCache := (metaCache ex_world)
                          ((Directory ex_update, Name (Entry ex_update)) \<mapsto> Entry ex_update,
                           (Directory ex_create, Name (Entry ex_create)) \<mapsto> Entry ex_create),
           trace := trace ex_world @
                      [RemoteUpdateEntry ex_update True,
                       CacheUpdateEntry (Directory ex_update, Entry ex_update),
                       RemoteCreateEntry ex_create True,
                       CacheInsertEntry (Directory ex_create, Entry ex_create)]\<rparr>))"
proof -
  have "Link (ex_wfs\<lparr>filer_CreateEntry := (\<lambda>r. None)\<rparr>) ex_dir ex_link (FileNode ex_file) ex_world =
     (Return (Some (newFile ex_dir (lr_NewName ex_link)
                (Entry (snd (Link_requests (ex_wfs\<lparr>filer_CreateEntry := (\<lambda>r. None)\<rparr>)
                    ex_dir ex_link ex_file
                    (stamp (ex_wfs\<lparr>filer_CreateEntry := (\<lambda>r. None)\<rparr>) ex_entry))))), None),
      FileNode (ex_file\<lparr>entry := Some (stamp (ex_wfs\<lparr>filer_CreateEntry := (\<lambda>r. None)\<rparr>) ex_entry)\<rparr>),
      mapPbIdFromFilerToLocal (ex_wfs\<lparr>filer_CreateEntry := (\<lambda>r. None)\<rparr>)
        (Entry (snd (Link_requests (ex_wfs\<lparr>filer_CreateEntry := (\<lambda>r. None)\<rparr>) ex_dir ex_link
           ex_file (stamp (ex_wfs\<lparr>filer_CreateEntry := (\<lambda>r. None)\<rparr>) ex_entry))))
        ((mapPbIdFromLocalToFiler (ex_wfs\<lparr>filer_CreateEntry := (\<lambda>r. None)\<rparr>)
           (Entry (snd (Link_requests (ex_wfs\<lparr>filer_CreateEntry := (\<lambda>r. None)\<rparr>) ex_dir
              ex_link ex_file (stamp (ex_wfs\<lparr>filer_CreateEntry := (\<lambda>r. None)\<rparr>) ex_entry))))
           ex_world)
         \<lparr>metaCache := (metaCache ex_world)
                          ((Directory ex_update, Name (Entry ex_update)) \<mapsto> Entry ex_update,
                           (Directory ex_create, Name (Entry ex_create)) \<mapsto> Entry ex_create),
           trace := trace ex_world @
                      [RemoteUpdateEntry ex_update True,
                       CacheUpdateEntry (Directory ex_update, Entry ex_update),
                       RemoteCreateEntry ex_create True,
                       CacheInsertEntry (Directory ex_create, Entry ex_create)]\<rparr>))"
    by (simp only: Link_outcomes [OF ex_load(1) ex_load(2)] ex_sent ex_wfs_sel) simp
  then show ?thesis
    by (simp only: ex_wfs_plain)
qed

lemma Link_accepting:
  assumes "\<not> ReadOnly wfs" "filer_conn wfs = None" "filer_UpdateEntry wfs = (\<lambda>r. None)"
    "filer_CreateEntry wfs = (\<lambda>r. None)" "entry f = Some e"
  shows "succeeded (fst (Link wfs dir q (FileNode f) w)) \<and>
         fst (snd (Link wfs dir q (FileNode f) w)) = FileNode (f\<lparr>entry := Some (stamp wfs e)\<rparr>)"
  by (simp add: Link_outcomes [OF maybeLoadEntry_resident [OF assms(5)] assms(5)] assms(1-4))

lemma Link_all_accepting:
  assumes "\<not> ReadOnly wfs" "filer_conn wfs = None" "filer_UpdateEntry wfs = (\<lambda>r. None)"
    "filer_CreateEntry wfs = (\<lambda>r. None)" "entry f = Some e"
  shows "list_all succeeded (fst (Link_all wfs dir reqs (FileNode f) w))"
  using assms(5)
proof (induction reqs arbitrary: f e w)
  case Nil
  show ?case by simp
next
  case (Cons q qs)
  note A = Link_accepting [OF assms(1-4) Cons.prems, of dir q w]
  obtain r old1 w1 where l: "Link wfs dir q (FileNode f) w = (r, old1, w1)"
    by (cases "Link wfs dir q (FileNode f) w") auto
  with A have r: "succeeded r" and o: "old1 = FileNode (f\<lparr>entry := Some (stamp wfs e)\<rparr>)"
    by simp_all
  have "entry (f\<lparr>entry := Some (stamp wfs e)\<rparr>) = Some (stamp wfs e)" by simp
  from Cons.IH [OF this, of w1] r show ?case
    by (auto simp: l o split: prod.splits)
qed

subsection \<open>Hard link identity and counter\<close>

text \<open>
  C1. Let \<open>e0\<close> be the entry of the source file after the load, with an empty
  \<open>HardLinkId\<close>. First, for every successful \<open>Link\<close>: after the load the operation adds
  exactly the successful update of the existing entry, its cache write, the successful
  create of the new name and its cache insert; the existing entry as sent in the update
  request and the new entry as sent in the create request carry the same \<open>HardLinkId\<close>,
  which is the 16 random bytes followed by the marker byte, 17 bytes long, and both have
  \<open>HardLinkCounter = 2\<close>; the attributes, chunks and extended fields of the new entry are
  those of the existing entry; and the same holds of the two entries in memory, the one of
  the old node and the one of the node returned. Second, for successive \<open>Link\<close> calls on
  that source node that all succeed: after the last of them the entry of the old node and
  the entry of the node returned share the identity, and their counter is 1 plus the
  number of \<open>Link\<close> calls made so far on the source, this one included (2 after the first),
  in the arithmetic of \<open>int32\<close>, and as an integer as long as that number is below
  \<open>2^31 - 1\<close>.
\<close>

theorem hardlink_identity:
  assumes ld: "maybeLoadEntry wfs f w = (lr, f1, w1)" and e0: "entry f1 = Some e0"
    and fresh: "HardLinkId e0 = []"
  shows
   "(Link wfs dir lreq (FileNode f) w = (Return (Some nf, None), old', w') \<longrightarrow>
      (\<exists>u c eo en.
         trace w' = trace w1 @ [RemoteUpdateEntry u True,
                                CacheUpdateEntry (Directory u, Entry u),
                                RemoteCreateEntry c True,
                                CacheInsertEntry (Directory c, Entry c)] \<and>
         Directory u = FullPath (fdir f1) \<and> Name (Entry u) = Name e0 \<and>
         Directory c = FullPath dir \<and> Name (Entry c) = lr_NewName lreq \<and>
         HardLinkId (Entry u) = RandomBytes wfs 16 @ [HARD_LINK_MARKER] \<and>
         HardLinkId (Entry c) = HardLinkId (Entry u) \<and>
         length (HardLinkId (Entry u)) = 17 \<and>
         HardLinkCounter (Entry u) = 2 \<and> HardLinkCounter (Entry c) = 2 \<and>
         Attributes (Entry c) = Attributes (Entry u) \<and>
         Chunks (Entry c) = Chunks (Entry u) \<and> Chunks (Entry u) = Chunks e0 \<and>
         Extended (Entry c) = Extended (Entry u) \<and> Extended (Entry u) = Extended e0 \<and>
         old' = FileNode (f1\<lparr>entry := Some eo\<rparr>) \<and> entry nf = Some en \<and>
         HardLinkId eo = HardLinkId (Entry u) \<and> HardLinkId en = HardLinkId (Entry u) \<and>
         HardLinkCounter eo = 2 \<and> HardLinkCounter en = 2 \<and>
         Attributes eo = Attributes e0 \<and> Attributes en = Attributes e0 \<and>
         Chunks en = Chunks e0 \<and> Extended en = Extended e0)) \<and>
    (reqs \<noteq> [] \<and> Link_all wfs dir reqs (FileNode f) w = (rs, old'', w'') \<and>
     list_all succeeded rs \<longrightarrow>
      (\<exists>fo eo nf' en.
         old'' = FileNode fo \<and> entry fo = Some eo \<and>
         last rs = Return (Some nf', None) \<and> entry nf' = Some en \<and>
         HardLinkId eo = RandomBytes wfs 16 @ [HARD_LINK_MARKER] \<and>
         HardLinkId en = HardLinkId eo \<and>
         HardLinkCounter eo = 1 + of_nat (length reqs) \<and>
         HardLinkCounter en = HardLinkCounter eo \<and>
         (length reqs + 1 < 2 ^ 31 \<longrightarrow> sint (HardLinkCounter eo) = 1 + int (length reqs))))"
proof (intro conjI impI)
  assume run: "Link wfs dir lreq (FileNode f) w = (Return (Some nf, None), old', w')"
  define req where "req = snd (Link_requests wfs dir lreq f1 (stamp wfs e0))"
  define wo where "wo = mapPbIdFromLocalToFiler wfs (Entry req) w1"
  define u where "u = serialize wo (fst (Link_requests wfs dir lreq f1 (stamp wfs e0)))"
  define c where "c = serialize wo req"
  have S: "nf = newFile dir (lr_NewName lreq) (Entry req)"
    "old' = FileNode (f1\<lparr>entry := Some (stamp wfs e0)\<rparr>)"
    "trace w' = trace w1 @ [RemoteUpdateEntry u True,
                                CacheUpdateEntry (Directory u, Entry u),
                                RemoteCreateEntry c True,
                                CacheInsertEntry (Directory c, Entry c)]"
    using Link_success [OF ld e0 run] by (simp_all add: req_def wo_def u_def c_def)
  have F: "Directory u = FullPath (fdir f1)" "Name (Entry u) = Name e0"
    "Directory c = FullPath dir" "Name (Entry c) = lr_NewName lreq"
    "HardLinkId (Entry u) = RandomBytes wfs 16 @ [HARD_LINK_MARKER]"
    "HardLinkId (Entry c) = HardLinkId (Entry u)"
    "HardLinkCounter (Entry u) = 2" "HardLinkCounter (Entry c) = 2"
    "Attributes (Entry c) = Attributes (Entry u)"
    "Chunks (Entry c) = Chunks (Entry u)" "Chunks (Entry u) = Chunks e0"
    "Extended (Entry c) = Extended (Entry u)" "Extended (Entry u) = Extended e0"
    by (simp_all add: u_def c_def req_def fresh)
  have G: "entry nf = Some (Entry req)" "HardLinkId (stamp wfs e0) = HardLinkId (Entry u)"
    "HardLinkId (Entry req) = HardLinkId (Entry u)"
    "HardLinkCounter (stamp wfs e0) = 2" "HardLinkCounter (Entry req) = 2"
    "Attributes (stamp wfs e0) = Attributes e0" "Attributes (Entry req) = Attributes e0"
    "Chunks (Entry req) = Chunks e0" "Extended (Entry req) = Extended e0"
    by (simp_all add: S(1) newFile_def u_def req_def fresh)
  have len: "length (HardLinkId (Entry u)) = 17"
    by (simp only: F(5) length_HardLinkId)
  show "\<exists>u c eo en.
         trace w' = trace w1 @ [RemoteUpdateEntry u True,
                                CacheUpdateEntry (Directory u, Entry u),
                                RemoteCreateEntry c True,
                                CacheInsertEntry (Directory c, Entry c)] \<and>
         Directory u = FullPath (fdir f1) \<and> Name (Entry u) = Name e0 \<and>
         Directory c = FullPath dir \<and> Name (Entry c) = lr_NewName lreq \<and>
         HardLinkId (Entry u) = RandomBytes wfs 16 @ [HARD_LINK_MARKER] \<and>
         HardLinkId (Entry c) = HardLinkId (Entry u) \<and>
         length (HardLinkId (Entry u)) = 17 \<and>
         HardLinkCounter (Entry u) = 2 \<and> HardLinkCounter (Entry c) = 2 \<and>
         Attributes (Entry c) = Attributes (Entry u) \<and>
         Chunks (Entry c) = Chunks (Entry u) \<and> Chunks (Entry u) = Chunks e0 \<and>
         Extended (Entry c) = Extended (Entry u) \<and> Extended (Entry u) = Extended e0 \<and>
         old' = FileNode (f1\<lparr>entry := Some eo\<rparr>) \<and> entry nf = Some en \<and>
         HardLinkId eo = HardLinkId (Entry u) \<and> HardLinkId en = HardLinkId (Entry u) \<and>
         HardLinkCounter eo = 2 \<and> HardLinkCounter en = 2 \<and>
         Attributes eo = Attributes e0 \<and> Attributes en = Attributes e0 \<and>
         Chunks en = Chunks e0 \<and> Extended en = Extended e0"
    apply (rule exI [of _ u], rule exI [of _ c])
    apply (rule exI [of _ "stamp wfs e0"], rule exI [of _ "Entry req"])
    apply (intro conjI)
    by (fact S F G len)+
next
  assume A: "reqs \<noteq> [] \<and> Link_all wfs dir reqs (FileNode f) w = (rs, old'', w'') \<and>
     list_all succeeded rs"
  then obtain q qs where reqs: "reqs = q # qs" by (cases reqs) auto
  obtain r old1 w2 where l: "Link wfs dir q (FileNode f) w = (r, old1, w2)"
    by (cases "Link wfs dir q (FileNode f) w") auto
  obtain rs1 where la: "Link_all wfs dir qs old1 w2 = (rs1, old'', w'')" and rs: "rs = r # rs1"
    using A l reqs by (auto split: prod.splits)
  from A rs have ok: "succeeded r" and oks: "list_all succeeded rs1"
    by simp_all
  define e where "e = stamp wfs e0"
  define f' where "f' = f1\<lparr>entry := Some e\<rparr>"
  note S = Link_success [OF ld e0 l ok, folded e_def, folded f'_def]
  have o1: "old1 = FileNode f'" using S by simp
  have e1: "entry f' = Some e" by (simp add: f'_def)
  have id: "HardLinkId e = RandomBytes wfs 16 @ [HARD_LINK_MARKER]" "HardLinkCounter e = 2"
    by (simp_all add: e_def fresh)
  then have ne: "HardLinkId e \<noteq> []" by simp
  note R = Link_all_resident [OF e1 la [unfolded o1] oks, unfolded stamp_funpow [OF ne]]
  define eo where "eo = e\<lparr>HardLinkCounter := HardLinkCounter e + of_nat (length qs)\<rparr>"
  have cnt: "HardLinkCounter eo = 1 + of_nat (length reqs)"
    by (simp add: eo_def id reqs)
  have o2: "old'' = FileNode (f'\<lparr>entry := Some eo\<rparr>)"
    using R by (simp add: eo_def)
  have s: "sint (HardLinkCounter eo) = 1 + int (length reqs)" if "length reqs + 1 < 2 ^ 31"
  proof -
    have "HardLinkCounter eo = of_nat (Suc (length reqs))"
      by (simp add: cnt)
    then show ?thesis
      using sint_of_nat32 [of "Suc (length reqs)"] that by simp
  qed
  have "\<exists>nf' en. last rs = Return (Some nf', None) \<and> entry nf' = Some en \<and>
          HardLinkId en = HardLinkId eo \<and> HardLinkCounter en = HardLinkCounter eo"
  proof (cases "qs = []")
    case True
    with la have "rs1 = []" by simp
    with S True show ?thesis
      by (simp add: rs newFile_def eo_def e_def)
  next
    case False
    with Link_all_length [OF la] have "rs1 \<noteq> []" by auto
    with False R show ?thesis
      by (simp add: rs eo_def)
  qed
  then obtain nf' en where L: "last rs = Return (Some nf', None)" "entry nf' = Some en"
    "HardLinkId en = HardLinkId eo" "HardLinkCounter en = HardLinkCounter eo"
    by blast
  have ido: "HardLinkId eo = RandomBytes wfs 16 @ [HARD_LINK_MARKER]"
    by (simp add: eo_def id)
  have efo: "entry (f'\<lparr>entry := Some eo\<rparr>) = Some eo" by simp
  show "\<exists>fo eo nf' en.
         old'' = FileNode fo \<and> entry fo = Some eo \<and>
         last rs = Return (Some nf', None) \<and> entry nf' = Some en \<and>
         HardLinkId eo = RandomBytes wfs 16 @ [HARD_LINK_MARKER] \<and>
         HardLinkId en = HardLinkId eo \<and>
         HardLinkCounter eo = 1 + of_nat (length reqs) \<and>
         HardLinkCounter en = HardLinkCounter eo \<and>
         (length reqs + 1 < 2 ^ 31 \<longrightarrow> sint (HardLinkCounter eo) = 1 + int (length reqs))"
    using o2 efo L ido cnt s by blast
qed

theorem hardlink_identity_witness:
  "maybeLoadEntry ex_wfs ex_file ex_world = (Inr (Some ex_entry), ex_file, ex_world) \<and>
   entry ex_file = Some ex_entry \<and> HardLinkId ex_entry = [] \<and>
   succeeded (fst (Link ex_wfs ex_dir ex_link (FileNode ex_file) ex_world)) \<and>
   trace (snd (snd (Link ex_wfs ex_dir ex_link (FileNode ex_file) ex_world))) =
     [RemoteUpdateEntry ex_update True, CacheUpdateEntry (Directory ex_update, Entry ex_update),
      RemoteCreateEntry ex_create True, CacheInsertEntry (Directory ex_create, Entry ex_create)] \<and>
   HardLinkId (Entry ex_update) = RandomBytes ex_wfs 16 @ [HARD_LINK_MARKER] \<and>
   HardLinkId (Entry ex_create) = HardLinkId (Entry ex_update) \<and>
   length (HardLinkId (Entry ex_update)) = 17 \<and>
   HardLinkCounter (Entry ex_update) = 2 \<and> HardLinkCounter (Entry ex_create) = 2 \<and>
   Attributes (Entry ex_create) = Attributes (Entry ex_update) \<and>
   ex_links \<noteq> [] \<and>
   list_all succeeded (fst (Link_all ex_wfs ex_dir ex_links (FileNode ex_file) ex_world)) \<and>
   (\<exists>fo eo. fst (snd (Link_all ex_wfs ex_dir ex_links (FileNode ex_file) ex_world)) = FileNode fo \<and>
      entry fo = Some eo \<and> HardLinkCounter eo = 4 \<and> sint (HardLinkCounter eo) = 4)"
proof -
  let ?L = "Link ex_wfs ex_dir ex_link (FileNode ex_file) ex_world"
  let ?A = "Link_all ex_wfs ex_dir ex_links (FileNode ex_file) ex_world"
  let ?nf = "newFile ex_dir (lr_NewName ex_link)
                (Entry (snd (Link_requests ex_wfs ex_dir ex_link ex_file
                               (stamp ex_wfs ex_entry))))"
  have ld: "maybeLoadEntry ex_wfs ex_file ex_world = (Inr (Some ex_entry), ex_file, ex_world)"
    by (rule ex_load)
  have tw: "trace ex_world = []"
    by (simp add: ex_world_def)
  have run: "?L = (Return (Some ?nf, None), fst (snd ?L), snd (snd ?L))"
    by (simp add: ex_run)
  have ok: "succeeded (fst ?L)"
    by (simp add: ex_run)
  have tr: "trace (snd (snd ?L)) =
     [RemoteUpdateEntry ex_update True, CacheUpdateEntry (Directory ex_update, Entry ex_update),
      RemoteCreateEntry ex_create True, CacheInsertEntry (Directory ex_create, Entry ex_create)]"
    by (simp add: ex_run tw)
  have acc: "\<not> ReadOnly ex_wfs" "filer_conn ex_wfs = None" "filer_UpdateEntry ex_wfs = (\<lambda>r. None)"
    "filer_CreateEntry ex_wfs = (\<lambda>r. None)"
    by (simp_all add: ex_wfs_def)
  have oks: "list_all succeeded (fst ?A)"
    by (rule Link_all_accepting [OF acc ex_load(2)])
  have ne: "ex_links \<noteq> []" and len: "length ex_links = 3"
    by (simp_all add: ex_links_def)
  have all: "?A = (fst ?A, fst (snd ?A), snd (snd ?A))"
    by simp
  note T = hardlink_identity [OF ld ex_load(2) ex_load(3), where dir = ex_dir
      and lreq = ex_link and nf = ?nf and old' = "fst (snd ?L)" and w' = "snd (snd ?L)"
      and reqs = ex_links and rs = "fst ?A" and old'' = "fst (snd ?A)"
      and w'' = "snd (snd ?A)"]
  from T run obtain u c where
    U: "trace (snd (snd ?L)) = trace ex_world @ [RemoteUpdateEntry u True,
          CacheUpdateEntry (Directory u, Entry u), RemoteCreateEntry c True,
          CacheInsertEntry (Directory c, Entry c)]"
      "HardLinkId (Entry u) = RandomBytes ex_wfs 16 @ [HARD_LINK_MARKER]"
      "HardLinkId (Entry c) = HardLinkId (Entry u)" "length (HardLinkId (Entry u)) = 17"
      "HardLinkCounter (Entry u) = 2" "HardLinkCounter (Entry c) = 2"
      "Attributes (Entry c) = Attributes (Entry u)"
    by blast
  have uc: "u = ex_update" "c = ex_create"
    using U(1) [unfolded tr tw] by simp_all
  from T ne all oks obtain fo eo where
    S: "fst (snd ?A) = FileNode fo" "entry fo = Some eo"
      "HardLinkCounter eo = 1 + of_nat (length ex_links)"
      "length ex_links + 1 < 2 ^ 31 \<longrightarrow> sint (HardLinkCounter eo) = 1 + int (length ex_links)"
    by blast
  from S have S': "HardLinkCounter eo = 4" "sint (HardLinkCounter eo) = 4"
    by (simp_all add: len)
  show ?thesis
    using ld ex_load(2,3) ok tr U(2-7) [unfolded uc] ne oks S(1,2) S' by blast
qed

subsection \<open>The cache is written after the filer has accepted\<close>

text \<open>
  C2. In every \<open>Link\<close> and every \<open>Symlink\<close> operation the trace is only extended, and in
  the events the operation adds every cache write (\<open>UpdateEntry\<close> or \<open>InsertEntry\<close> on the
  cache) comes after a filer call of the matching kind (\<open>UpdateEntry\<close> or \<open>CreateEntry\<close>)
  that carried the same directory and entry and returned success; and no filer call that
  failed is followed or preceded by a cache write of that kind for its path.
\<close>

theorem cache_write_after_remote_success:
  "take (length (trace w)) (trace (snd (snd (Link wfs dir lreq old w)))) = trace w \<and>
   cache_after_remote [] (drop (length (trace w)) (trace (snd (snd (Link wfs dir lreq old w))))) \<and>
   no_write_after_failure (drop (length (trace w)) (trace (snd (snd (Link wfs dir lreq old w))))) \<and>
   take (length (trace w)) (trace (snd (Symlink wfs dir sreq w))) = trace w \<and>
   cache_after_remote [] (drop (length (trace w)) (trace (snd (Symlink wfs dir sreq w)))) \<and>
   no_write_after_failure (drop (length (trace w)) (trace (snd (Symlink wfs dir sreq w))))"
proof -
  obtain pre body where
    l: "trace (snd (snd (Link wfs dir lreq old w))) = trace w @ pre @ body"
    and p: "pre = [] \<or> (\<exists>d n. pre = [LoadEntry d n])"
    and b: "body = [] \<or> (\<exists>u. body = [RemoteUpdateEntry u False]) \<or>
      (\<exists>u c. body = [RemoteUpdateEntry u True, CacheUpdateEntry (Directory u, Entry u),
                      RemoteCreateEntry c False]) \<or>
      (\<exists>u c. body = [RemoteUpdateEntry u True, CacheUpdateEntry (Directory u, Entry u),
                      RemoteCreateEntry c True, CacheInsertEntry (Directory c, Entry c)])"
    using Link_trace_shape [of wfs dir lreq old w] by blast
  have L: "take (length (trace w)) (trace (snd (snd (Link wfs dir lreq old w)))) = trace w \<and>
     cache_after_remote [] (drop (length (trace w)) (trace (snd (snd (Link wfs dir lreq old w))))) \<and>
     no_write_after_failure (drop (length (trace w)) (trace (snd (snd (Link wfs dir lreq old w)))))"
    using ordered_events [OF p b] by (simp add: l)
  have S: "take (length (trace w)) (trace (snd (Symlink wfs dir sreq w))) = trace w \<and>
     cache_after_remote [] (drop (length (trace w)) (trace (snd (Symlink wfs dir sreq w)))) \<and>
     no_write_after_failure (drop (length (trace w)) (trace (snd (Symlink wfs dir sreq w))))"
  proof (cases "ReadOnly wfs")
    case True
    then show ?thesis by (simp add: Symlink_def no_write_after_failure_def)
  next
    case False
    show ?thesis
      unfolding Symlink_trace [OF False]
      by (cases "filer_conn wfs") (simp_all add: Let_def no_write_after_failure_def)
  qed
  from L S show ?thesis by simp
qed

theorem cache_write_after_remote_success_witness:
  "trace (snd (snd (Link ex_wfs ex_dir ex_link (FileNode ex_file) ex_world))) =
     [RemoteUpdateEntry ex_update True, CacheUpdateEntry (Directory ex_update, Entry ex_update),
      RemoteCreateEntry ex_create True, CacheInsertEntry (Directory ex_create, Entry ex_create)] \<and>
   cache_after_remote []
     (trace (snd (snd (Link ex_wfs ex_dir ex_link (FileNode ex_file) ex_world)))) \<and>
   no_write_after_failure
     (trace (snd (snd (Link ex_wfs ex_dir ex_link (FileNode ex_file) ex_world)))) \<and>
   cache_after_remote [] (trace (snd (Symlink ex_wfs ex_dir ex_symlink ex_world))) \<and>
   no_write_after_failure (trace (snd (Symlink ex_wfs ex_dir ex_symlink ex_world))) \<and>
   \<not> cache_after_remote []
       [CacheUpdateEntry (Directory ex_update, Entry ex_update),
        RemoteUpdateEntry ex_update True] \<and>
   \<not> no_write_after_failure
       [RemoteCreateEntry ex_create False,
        CacheInsertEntry (Directory ex_create, Entry ex_create)]"
proof -
  have tw: "trace ex_world = []"
    by (simp add: ex_world_def)
  have tr: "trace (snd (snd (Link ex_wfs ex_dir ex_link (FileNode ex_file) ex_world))) =
     [RemoteUpdateEntry ex_update True, CacheUpdateEntry (Directory ex_update, Entry ex_update),
      RemoteCreateEntry ex_create True, CacheInsertEntry (Directory ex_create, Entry ex_create)]"
    by (simp add: ex_run tw)
  have n: "\<not> cache_after_remote []
       [CacheUpdateEntry (Directory ex_update, Entry ex_update),
        RemoteUpdateEntry ex_update True]"
    "\<not> no_write_after_failure
       [RemoteCreateEntry ex_create False,
        CacheInsertEntry (Directory ex_create, Entry ex_create)]"
    by (simp_all add: no_write_after_failure_def)
  from cache_write_after_remote_success [where w = ex_world and wfs = ex_wfs
      and dir = ex_dir and lreq = ex_link and old = "FileNode ex_file" and sreq = ex_symlink]
  have "cache_after_remote []
     (trace (snd (snd (Link ex_wfs ex_dir ex_link (FileNode ex_file) ex_world))))"
   "no_write_after_failure
     (trace (snd (snd (Link ex_wfs ex_dir ex_link (FileNode ex_file) ex_world))))"
   "cache_after_remote [] (trace (snd (Symlink ex_wfs ex_dir ex_symlink ex_world)))"
   "no_write_after_failure (trace (snd (Symlink ex_wfs ex_dir ex_symlink ex_world)))"
    by (simp_all add: tw)
  with tr n show ?thesis by blast
qed

subsection \<open>Partial failure of Link\<close>

text \<open>
  C3. Take any \<open>Link\<close> execution on a file whose entry \<open>e0\<close> is there after the load,
  in which the filer call that updates the existing entry succeeded and the filer call
  that creates the new name failed. Then \<open>Link\<close> returns no node and the error \<open>EIO\<close>.
  After the load, the operation added exactly three events: the successful update, the
  cache write of the existing entry as it was sent, and the failed create; there is no
  cache insert and no further filer call that would undo the update. The cache differs
  from the cache before only at the path of the existing entry, where it holds the entry
  as sent, with the hard link identity (fresh when there was none) and the counter
  incremented (2 when there was no identity); and the entry of the old node in memory
  keeps the new identity and counter too.
\<close>

theorem Link_partial_failure:
  assumes run: "Link wfs dir lreq (FileNode f) w = (r, old', w')"
    and ld: "maybeLoadEntry wfs f w = (lr, f1, w1)" and e0: "entry f1 = Some e0"
    and up: "RemoteUpdateEntry u True \<in> set (drop (length (trace w)) (trace w'))"
    and cr: "RemoteCreateEntry c False \<in> set (drop (length (trace w)) (trace w'))"
  shows "r = Return (None, Some EIO) \<and>
     old' = FileNode (f1\<lparr>entry := Some (stamp wfs e0)\<rparr>) \<and>
     trace w' = trace w1 @ [RemoteUpdateEntry u True, CacheUpdateEntry (Directory u, Entry u),
                            RemoteCreateEntry c False] \<and>
     metaCache w' = (metaCache w)((Directory u, Name (Entry u)) \<mapsto> Entry u) \<and>
     Directory u = FullPath (fdir f1) \<and> Name (Entry u) = Name e0 \<and>
     HardLinkId (Entry u) =
       (if HardLinkId e0 = [] then RandomBytes wfs 16 @ [HARD_LINK_MARKER] else HardLinkId e0) \<and>
     HardLinkCounter (Entry u) = (if HardLinkId e0 = [] then 2 else HardLinkCounter e0 + 1) \<and>
     Directory c = FullPath dir \<and> Name (Entry c) = lr_NewName lreq"
proof -
  define upd where "upd = fst (Link_requests wfs dir lreq f1 (stamp wfs e0))"
  define req where "req = snd (Link_requests wfs dir lreq f1 (stamp wfs e0))"
  define wo where "wo = mapPbIdFromLocalToFiler wfs (Entry req) w1"
  define U where "U = serialize wo upd"
  define C where "C = serialize wo req"
  note O = Link_outcomes [OF ld e0, of dir lreq, folded upd_def req_def, folded wo_def,
      folded U_def C_def]
  define pre where
    "pre = (if entry f = None then [LoadEntry (FullPath (fdir f)) (fName f)] else [])"
  have t1: "trace w1 = trace w @ pre"
    using maybeLoadEntry_trace [OF ld] by (simp add: pre_def)
  have m1: "metaCache w1 = metaCache w"
    by (rule maybeLoadEntry_metaCache [OF ld])
  have pre: "RemoteUpdateEntry u True \<notin> set pre"
    by (simp add: pre_def)
  have a: "\<not> ReadOnly wfs"
  proof
    assume "ReadOnly wfs"
    with run O have "w' = w" by simp
    with up show False by simp
  qed
  have stop: False if "w' = w1"
    using that up pre by (simp add: t1)
  obtain x where b: "lr = Inr x"
  proof (cases lr)
    case (Inl err)
    with run O a have "w' = w1" by simp
    then show ?thesis by (rule stop [THEN FalseE])
  qed
  have c0: "filer_conn wfs = None"
  proof (cases "filer_conn wfs")
    case (Some err)
    with run O a b have "w' = w1" by simp
    then show ?thesis by (rule stop [THEN FalseE])
  qed
  have d: "filer_UpdateEntry wfs U = None"
  proof (rule ccontr)
    assume "filer_UpdateEntry wfs U \<noteq> None"
    with run O a b c0
    have "w' = mapPbIdFromFilerToLocal wfs (Entry req)
                 (wo\<lparr>trace := trace w1 @ [RemoteUpdateEntry U False]\<rparr>)"
      by auto
    with up pre show False by (simp add: t1)
  qed
  have e: "filer_CreateEntry wfs C \<noteq> None"
  proof
    assume "filer_CreateEntry wfs C = None"
    with run O a b c0 d
    have "trace w' = trace w1 @ [RemoteUpdateEntry U True,
              CacheUpdateEntry (Directory U, Entry U), RemoteCreateEntry C True,
              CacheInsertEntry (Directory C, Entry C)]"
      by auto
    with cr show False by (simp add: t1 pre_def split: if_splits)
  qed
  from run O a b c0 d e
  have R: "r = Return (None, Some EIO)" "old' = FileNode (f1\<lparr>entry := Some (stamp wfs e0)\<rparr>)"
    "trace w' = trace w1 @ [RemoteUpdateEntry U True, CacheUpdateEntry (Directory U, Entry U),
                            RemoteCreateEntry C False]"
    "metaCache w' = (metaCache w)((Directory U, Name (Entry U)) \<mapsto> Entry U)"
    by (auto simp: m1)
  from up cr R(3) have uc: "u = U" "c = C"
    by (auto simp: t1 pre_def split: if_splits)
  have F: "Directory U = FullPath (fdir f1)" "Name (Entry U) = Name e0"
    "HardLinkId (Entry U) =
       (if HardLinkId e0 = [] then RandomBytes wfs 16 @ [HARD_LINK_MARKER] else HardLinkId e0)"
    "HardLinkCounter (Entry U) = (if HardLinkId e0 = [] then 2 else HardLinkCounter e0 + 1)"
    "Directory C = FullPath dir" "Name (Entry C) = lr_NewName lreq"
    by (simp_all add: U_def C_def upd_def req_def)
  show ?thesis
    unfolding uc using R F by simp
qed

theorem Link_partial_failure_witness:
  "fst (Link ex_failing_wfs ex_dir ex_link (FileNode ex_file) ex_world)
     = Return (None, Some EIO) \<and>
   fst (snd (Link ex_failing_wfs ex_dir ex_link (FileNode ex_file) ex_world))
     = FileNode (ex_file\<lparr>entry := Some (stamp ex_failing_wfs ex_entry)\<rparr>) \<and>
   trace (snd (snd (Link ex_failing_wfs ex_dir ex_link (FileNode ex_file) ex_world)))
     = [RemoteUpdateEntry ex_update True, CacheUpdateEntry (''/d'', ex_sent_entry),
        RemoteCreateEntry ex_create False] \<and>
   metaCache (snd (snd (Link ex_failing_wfs ex_dir ex_link (FileNode ex_file) ex_world)))
     = [(''/d'', ''a.txt'') \<mapsto> ex_sent_entry] \<and>
   HardLinkId ex_sent_entry = RandomBytes ex_failing_wfs 16 @ [HARD_LINK_MARKER] \<and>
   HardLinkCounter ex_sent_entry = 2"
proof -
  let ?L = "Link ex_failing_wfs ex_dir ex_link (FileNode ex_file) ex_world"
  have run: "?L = (fst ?L, fst (snd ?L), snd (snd ?L))"
    by simp
  have tw: "trace ex_world = []"
    by (simp add: ex_world_def)
  have tr: "trace (snd (snd ?L)) =
      [RemoteUpdateEntry ex_update True,
       CacheUpdateEntry (Directory ex_update, Entry ex_update),
       RemoteCreateEntry ex_create False]"
    by (simp add: ex_failing_run tw)
  have up: "RemoteUpdateEntry ex_update True
              \<in> set (drop (length (trace ex_world)) (trace (snd (snd ?L))))"
    and cr: "RemoteCreateEntry ex_create False
              \<in> set (drop (length (trace ex_world)) (trace (snd (snd ?L))))"
    by (simp_all add: tr tw)
  have v: "Directory ex_update = ''/d''" "Entry ex_update = ex_sent_entry"
    "Name ex_sent_entry = ''a.txt''" "metaCache ex_world = Map.empty" "trace ex_world = []"
    "HardLinkId ex_entry = []"
    by (simp_all add: ex_update_def ex_sent_entry_def ex_world_def ex_entry_def)
  show ?thesis
    using Link_partial_failure [OF run ex_load(1) ex_load(2) up cr]
    by (simp add: v)
qed

subsection \<open>Read-only mode\<close>

text \<open>
  C4. In read-only mode \<open>Link\<close> and \<open>Symlink\<close> return the permission error \<open>EPERM\<close> at
  once: the world they leave is the world they were given, so the trace has no new filer
  call and no new cache write, and the cache and the old node are untouched.
\<close>

theorem read_only_rejects:
  "ReadOnly wfs \<Longrightarrow>
     Link wfs dir lreq old w = (Return (None, Some EPERM), old, w) \<and>
     Symlink wfs dir sreq w = (Return (None, Some EPERM), w)"
  by (simp add: Link_def Symlink_def)

theorem read_only_rejects_witness:
  "ReadOnly (ex_wfs\<lparr>ReadOnly := True\<rparr>) \<and>
   Link (ex_wfs\<lparr>ReadOnly := True\<rparr>) ex_dir ex_link (FileNode ex_file) ex_world
     = (Return (None, Some EPERM), FileNode ex_file, ex_world) \<and>
   Symlink (ex_wfs\<lparr>ReadOnly := True\<rparr>) ex_dir ex_symlink ex_world
     = (Return (None, Some EPERM), ex_world)"
  using read_only_rejects [of "ex_wfs\<lparr>ReadOnly := True\<rparr>" ex_dir ex_link
      "FileNode ex_file" ex_world ex_symlink]
  by (simp add: ex_wfs_def)

subsection \<open>Readlink\<close>

text \<open>
  C5. For an entry that the load returns without error and that has attributes,
  \<open>Readlink\<close> returns the attribute \<open>SymlinkTarget\<close> as it is, with no error, when bit 27
  (the symbolic-link bit) of the file mode is set, and the empty string with \<open>EINVAL\<close>
  when it is not set. (An entry whose attribute pointer is nil has no file mode; the mode
  test panics on it.)
\<close>

theorem Readlink_target:
  assumes "maybeLoadEntry wfs file w = (Inr (Some e), file', w')"
    and "Attributes e = Some p"
  shows "Readlink wfs file w =
     (if bit (FileMode (heap w' p)) 27
      then Return (SymlinkTarget (heap w' p), None)
      else Return ('''', Some EINVAL), file', w')"
  using assms by (simp add: Readlink_def symlink_bit)

theorem Readlink_target_witness:
  "maybeLoadEntry ex_wfs ex_file ex_symlink_world
     = (Inr (Some ex_entry), ex_file, ex_symlink_world) \<and>
   maybeLoadEntry ex_wfs ex_file ex_world = (Inr (Some ex_entry), ex_file, ex_world) \<and>
   Attributes ex_entry = Some 0 \<and>
   Readlink ex_wfs ex_file ex_symlink_world
     = (Return (''/target/path'', None), ex_file, ex_symlink_world) \<and>
   Readlink ex_wfs ex_file ex_world = (Return ('''', Some EINVAL), ex_file, ex_world)"
proof -
  have l1: "maybeLoadEntry ex_wfs ex_file ex_symlink_world
              = (Inr (Some ex_entry), ex_file, ex_symlink_world)"
    by (simp add: maybeLoadEntry_def ex_file_def)
  have l2: "maybeLoadEntry ex_wfs ex_file ex_world = (Inr (Some ex_entry), ex_file, ex_world)"
    by (simp add: maybeLoadEntry_def ex_file_def)
  have a: "Attributes ex_entry = Some 0"
    by (simp add: ex_entry_def)
  have b1: "bit (FileMode (heap ex_symlink_world 0)) 27"
    by (simp add: ex_symlink_world_def ex_attrs_def bit_iff_odd_drop_bit)
  have b2: "\<not> bit (FileMode (heap ex_world 0)) 27"
    by (simp add: ex_world_def ex_attrs_def bit_iff_odd_drop_bit)
  have t: "SymlinkTarget (heap ex_symlink_world 0) = ''/target/path''"
    by (simp add: ex_symlink_world_def)
  show ?thesis
    using Readlink_target [OF l1 a] Readlink_target [OF l2 a] l1 l2 a b1 b2 t by simp
qed

subsection \<open>The entry Symlink sends\<close>

text \<open>
  C6, as amended. A \<open>Symlink\<close> call that passes the read-only check sends nothing when no
  filer client can be acquired, and otherwise sends exactly one create request. Its entry
  has \<open>IsDirectory = false\<close>, the file mode \<open>(0777 | os.ModeSymlink) &^ umask\<close>, the
  requested target, the two readings of the current time as modification and creation
  time, no chunks, no hard link identity, and as owner and group the outward
  (local to filer) translation of the requested \<open>Uid\<close> and \<open>Gid\<close>. The entry is mirrored
  into the cache only when the filer accepted it.
\<close>

theorem Symlink_entry_sent:
  fixes wfs :: WFS and dir :: Dir and req :: SymlinkRequest
  assumes "\<not> ReadOnly wfs"
  defines "sent \<equiv>
     \<lparr>Directory = FullPath dir,
      Entry = \<lparr>Name = sr_NewName req, IsDirectory = False,
               Attributes = Some \<lparr>Mtime = Now wfs 0, Crtime = Now wfs 1,
                                  FileMode = (511 OR ModeSymlink) AND NOT (Umask wfs),
                                  Uid = fst (LocalToFiler wfs (sr_Uid req, sr_Gid req)),
                                  Gid = snd (LocalToFiler wfs (sr_Uid req, sr_Gid req)),
                                  SymlinkTarget = sr_Target req\<rparr>,
               Chunks = [], Extended = Map.empty, HardLinkId = [],
               HardLinkCounter = 0\<rparr>,
      Signatures = [signature wfs]\<rparr>"
  shows "trace (snd (Symlink wfs dir req w)) =
           trace w @
             (case filer_conn wfs of
                Some err \<Rightarrow> []
              | None \<Rightarrow>
                  if filer_CreateEntry wfs sent = None
                  then [RemoteCreateEntry sent True,
                        CacheInsertEntry (Directory sent, Entry sent)]
                  else [RemoteCreateEntry sent False])"
  unfolding Symlink_trace [OF assms(1)] Symlink_sent sent_def Let_def ..

theorem Symlink_entry_sent_witness:
  "\<not> ReadOnly ex_wfs \<and>
   trace (snd (Symlink ex_wfs ex_dir ex_symlink ex_world)) =
     [RemoteCreateEntry
        \<lparr>Directory = ''/d'',
         Entry = \<lparr>Name = ''link1'', IsDirectory = False,
                  Attributes = Some \<lparr>Mtime = 1700000000, Crtime = 1700000000,
                                     FileMode = 134218221, Uid = 2000, Gid = 2000,
                                     SymlinkTarget = ''/target/path''\<rparr>,
                  Chunks = [], Extended = Map.empty, HardLinkId = [],
                  HardLinkCounter = 0\<rparr>,
         Signatures = [7]\<rparr> True,
      CacheInsertEntry
        (''/d'',
         \<lparr>Name = ''link1'', IsDirectory = False,
          Attributes = Some \<lparr>Mtime = 1700000000, Crtime = 1700000000,
                             FileMode = 134218221, Uid = 2000, Gid = 2000,
                             SymlinkTarget = ''/target/path''\<rparr>,
          Chunks = [], Extended = Map.empty, HardLinkId = [],
          HardLinkCounter = 0\<rparr>)]"
proof -
  have r: "\<not> ReadOnly ex_wfs"
    by (simp add: ex_wfs_def)
  show ?thesis
    using Symlink_entry_sent [OF r, of ex_dir ex_symlink ex_world] r
    by (simp add: ex_wfs_def ex_dir_def ex_symlink_def ex_world_def ModeSymlink_def)
qed

text \<open>C6 as stated fails on the identifiers: with a mapper that is not the identity the
  entry sent carries owner and group 2000 where the request asked for 1000.\<close>

theorem Symlink_sent_ids_counterexample:
  "\<not> ReadOnly ex_wfs \<and> sr_Uid ex_symlink = 1000 \<and> sr_Gid ex_symlink = 1000 \<and>
   hd (trace (snd (Symlink ex_wfs ex_dir ex_symlink ex_world))) =
     RemoteCreateEntry
        \<lparr>Directory = ''/d'',
         Entry = \<lparr>Name = ''link1'', IsDirectory = False,
                  Attributes = Some \<lparr>Mtime = 1700000000, Crtime = 1700000000,
                                     FileMode = 134218221, Uid = 2000, Gid = 2000,
                                     SymlinkTarget = ''/target/path''\<rparr>,
                  Chunks = [], Extended = Map.empty, HardLinkId = [],
                  HardLinkCounter = 0\<rparr>,
         Signatures = [7]\<rparr> True"
proof -
  have r: "\<not> ReadOnly ex_wfs"
    by (simp add: ex_wfs_def)
  have c: "filer_conn ex_wfs = None" "filer_CreateEntry ex_wfs = (\<lambda>r. None)"
    "trace ex_world = []"
    by (simp_all add: ex_wfs_def ex_world_def)
  have u: "sr_Uid ex_symlink = 1000" "sr_Gid ex_symlink = 1000"
    by (simp_all add: ex_symlink_def)
  show ?thesis
    using r u by (simp add: Symlink_trace [OF r] ex_symlink_sent c Let_def)
qed

subsection \<open>Readlink is a pure read\<close>

text \<open>
  C7. On a file node whose entry is already loaded, \<open>Readlink\<close> leaves the node and the
  world as they are, so the trace gains no lazy load, no filer call and no cache write;
  and its result does not depend on the cache, on the trace or on anything of the
  filesystem object: it is read from the entry and its attribute object alone. (On a node
  whose entry is not loaded yet, \<open>Readlink\<close> first goes through the lazy load.)
\<close>

theorem Readlink_pure:
  assumes "entry file = Some e"
  shows "snd (Readlink wfs file w) = (file, w) \<and>
         fst (Readlink wfs file w)
           = fst (Readlink wfs' file (w\<lparr>metaCache := c, trace := t, next_addr := n\<rparr>))"
  using assms
  by (simp add: Readlink_def maybeLoadEntry_resident split: option.splits)

theorem Readlink_pure_witness:
  "entry ex_file = Some ex_entry \<and>
   snd (Readlink ex_wfs ex_file ex_symlink_world) = (ex_file, ex_symlink_world) \<and>
   fst (Readlink ex_wfs ex_file ex_symlink_world)
     = fst (Readlink (ex_wfs\<lparr>filer_conn := Some EIO\<rparr>) ex_file
              (ex_symlink_world\<lparr>metaCache := Map.empty, trace := [LoadEntry ''/d'' ''x''],
                 next_addr := 5\<rparr>))"
proof -
  have r: "entry ex_file = Some ex_entry"
    by (simp add: ex_file_def)
  show ?thesis
    using Readlink_pure [OF r, where wfs = ex_wfs and w = ex_symlink_world
        and wfs' = "ex_wfs\<lparr>filer_conn := Some EIO\<rparr>" and c = Map.empty
        and t = "[LoadEntry ''/d'' ''x'']" and n = 5] r
    by simp
qed

subsection \<open>The node Symlink returns\<close>

text \<open>
  C8, as amended. A \<open>Symlink\<close> call that passes the read-only check returns a file node
  of the directory whose entry is the entry of the request (its attribute object is the
  one just allocated), whatever the error; when the create call of this operation failed
  the error is \<open>EIO\<close> and the node is returned all the same; and the operation performs no
  lazy load.
\<close>

theorem Symlink_returns_node:
  fixes wfs :: WFS and dir :: Dir and req :: SymlinkRequest and w :: world
  assumes "\<not> ReadOnly wfs"
  defines "node \<equiv>
     \<lparr>fName = sr_NewName req, fdir = dir,
      entry = Some \<lparr>Name = sr_NewName req, IsDirectory = False,
                     Attributes = Some (next_addr w), Chunks = [],
                     Extended = Map.empty, HardLinkId = [], HardLinkCounter = 0\<rparr>\<rparr>"
    and "evs \<equiv> drop (length (trace w)) (trace (snd (Symlink wfs dir req w)))"
  shows "\<exists>err. fst (Symlink wfs dir req w) = Return (Some node, err) \<and>
           (\<forall>q. RemoteCreateEntry q False \<in> set evs \<longrightarrow> err = Some EIO) \<and>
           (\<forall>d n. LoadEntry d n \<notin> set evs)"
proof -
  have n: "newFile dir (sr_NewName req) (Entry (Symlink_request wfs dir req (next_addr w))) = node"
    by (simp add: newFile_def Symlink_request_def node_def)
  show ?thesis
    unfolding evs_def Symlink_trace [OF assms(1)] Symlink_result [OF assms(1)] n
    by (cases "filer_conn wfs") (simp_all add: Let_def)
qed

theorem Symlink_returns_node_witness:
  "\<not> ReadOnly (ex_wfs\<lparr>filer_CreateEntry := (\<lambda>r. Some (Err ''exists''))\<rparr>) \<and>
   fst (Symlink (ex_wfs\<lparr>filer_CreateEntry := (\<lambda>r. Some (Err ''exists''))\<rparr>)
          ex_dir ex_symlink ex_world) =
     Return (Some \<lparr>fName = ''link1'', fdir = ex_dir,
                   entry = Some \<lparr>Name = ''link1'', IsDirectory = False,
                                  Attributes = Some 1, Chunks = [],
                                  Extended = Map.empty, HardLinkId = [],
                                  HardLinkCounter = 0\<rparr>\<rparr>,
             Some EIO)"
proof -
  let ?wfs = "ex_wfs\<lparr>filer_CreateEntry := (\<lambda>r. Some (Err ''exists''))\<rparr>"
  have r: "\<not> ReadOnly ?wfs"
    by (simp add: ex_wfs_def)
  have c: "filer_conn ?wfs = None" "trace ex_world = []" "next_addr ex_world = 1"
    "sr_NewName ex_symlink = ''link1''"
    by (simp_all add: ex_wfs_def ex_world_def ex_symlink_def)
  have "\<exists>q. RemoteCreateEntry q False
           \<in> set (drop (length (trace ex_world))
                    (trace (snd (Symlink ?wfs ex_dir ex_symlink ex_world))))"
    by (simp add: Symlink_trace [OF r] c Let_def)
  with Symlink_returns_node [OF r, of ex_dir ex_symlink ex_world] r show ?thesis
    by (auto simp: c)
qed

text \<open>C8 as stated fails in read-only mode: the call returns no node, only \<open>EPERM\<close>.\<close>

theorem Symlink_read_only_counterexample:
  "Symlink (ex_wfs\<lparr>ReadOnly := True\<rparr>) ex_dir ex_symlink ex_world
     = (Return (None, Some EPERM), ex_world)"
  by (simp add: Symlink_def)

subsection \<open>Identifier mapping, out and back\<close>

text \<open>
  C9. Provided the inward mapping of the identifier mapper undoes the outward one (the
  mapper itself lies outside this file), for every entry and every world, so for every
  owner and group identifier, zero included: mapping the entry's identifiers outward and
  then inward gives back the world unchanged. In \<open>Link\<close> and \<open>Symlink\<close> the inward
  mapping is deferred in the callback and runs however the callback ends, whatever the
  filer answers: the callback leaves every attribute object as it found it, hence so does
  \<open>Link\<close> on a loaded file, and after \<open>Symlink\<close> the attribute object of the request
  holds the requested identifiers again.
\<close>

theorem identifiers_round_trip:
  assumes "\<forall>u g. FilerToLocal wfs (LocalToFiler wfs (u, g)) = (u, g)"
  shows "mapPbIdFromFilerToLocal wfs e (mapPbIdFromLocalToFiler wfs e w) = w \<and>
         heap (snd (Link_callback wfs upd req w)) = heap w \<and>
         heap (snd (Symlink_callback wfs req w)) = heap w \<and>
         (entry f = Some e0 \<longrightarrow>
            heap (snd (snd (Link wfs dir lreq (FileNode f) w))) = heap w) \<and>
         (\<not> ReadOnly wfs \<longrightarrow>
            heap (snd (Symlink wfs dir sreq w)) (next_addr w) = Symlink_attributes wfs sreq)"
proof -
  note rt = map_round_trip [OF assms]
  have a: "heap (snd (Link_callback wfs upd' req' w')) = heap w'" for upd' req' w'
    by (simp add: Link_callback_heap rt)
  have b: "heap (snd (Symlink_callback wfs req' w')) = heap w'" for req' w'
    by (simp add: Symlink_callback_heap rt)
  have c: "heap (snd (snd (Link wfs dir lreq (FileNode f) w))) = heap w" if "entry f = Some e0"
    by (simp add: Link_heap_resident [OF that] a)
  have d: "heap (snd (Symlink wfs dir sreq w)) (next_addr w) = Symlink_attributes wfs sreq"
    if "\<not> ReadOnly wfs"
    by (cases "filer_conn wfs") (simp_all add: Symlink_eq [OF that] WithFilerClient_def b alloc_def)
  show ?thesis using rt a b c d by simp
qed

theorem identifiers_round_trip_witness:
  "(\<forall>u g. FilerToLocal ex_wfs (LocalToFiler ex_wfs (u, g)) = (u, g)) \<and>
   entry ex_file = Some ex_entry \<and> \<not> ReadOnly ex_wfs \<and>
   Uid (heap ex_zero_world 0) = 0 \<and> Gid (heap ex_zero_world 0) = 0 \<and>
   mapPbIdFromFilerToLocal ex_wfs ex_entry
     (mapPbIdFromLocalToFiler ex_wfs ex_entry ex_zero_world) = ex_zero_world \<and>
   heap (snd (snd (Link ex_wfs ex_dir ex_link (FileNode ex_file) ex_zero_world)))
     = heap ex_zero_world \<and>
   heap (snd (Symlink ex_wfs ex_dir ex_symlink ex_zero_world)) (next_addr ex_zero_world)
     = Symlink_attributes ex_wfs ex_symlink"
proof -
  have rt: "\<forall>u g. FilerToLocal ex_wfs (LocalToFiler ex_wfs (u, g)) = (u, g)"
    by (simp add: ex_wfs_def)
  have r: "entry ex_file = Some ex_entry" "\<not> ReadOnly ex_wfs"
    "Uid (heap ex_zero_world 0) = 0" "Gid (heap ex_zero_world 0) = 0"
    by (simp_all add: ex_file_def ex_wfs_def ex_zero_world_def)
  show ?thesis
    using identifiers_round_trip [OF rt, where e = ex_entry and w = ex_zero_world
        and f = ex_file and e0 = ex_entry and dir = ex_dir and lreq = ex_link
        and sreq = ex_symlink] rt r
    by simp
qed

subsection \<open>Link on a node that is not a file\<close>

text \<open>
  C10, as amended. When the filesystem is not read-only and the old node is not a file
  node, \<open>Link\<close> does not return: the failed type assertion leaves a nil file pointer, the
  next statement dereferences it, and the call panics with the world as it was. (In
  read-only mode the call returns \<open>EPERM\<close> before the type assertion, see the
  counterexample.)
\<close>

theorem Link_non_file_panics:
  "\<not> ReadOnly wfs \<Longrightarrow> Link wfs dir req (DirNode d) w = (Panic, DirNode d, w)"
  by (simp add: Link_def)

theorem Link_non_file_panics_witness:
  "\<not> ReadOnly ex_wfs \<and> Link ex_wfs ex_dir ex_link (DirNode ex_dir) ex_world
      = (Panic, DirNode ex_dir, ex_world)"
  using Link_non_file_panics [of ex_wfs ex_dir ex_link ex_dir ex_world]
  by (simp add: ex_wfs_def)

text \<open>C10 as stated fails in read-only mode: with a directory as the old node \<open>Link\<close>
  returns the error \<open>EPERM\<close> and does not panic.\<close>

theorem Link_non_file_read_only_counterexample:
  "Link (ex_wfs\<lparr>ReadOnly := True\<rparr>) ex_dir ex_link (DirNode ex_dir) ex_world
     = (Return (None, Some EPERM), DirNode ex_dir, ex_world) \<and>
   fst (Link (ex_wfs\<lparr>ReadOnly := True\<rparr>) ex_dir ex_link (DirNode ex_dir) ex_world) \<noteq> Panic"
  by (simp add: Link_def)

end
